theory Spec2Isabelle
  imports Complex_Main "HOL-Library.AList" "HOL-Library.Sublist" "HOL-Library.Multiset"
begin

section \<open>Python values and containers\<close>

text \<open>
  The program is Python. Its floats are modelled as exact reals (\<^typ>\<open>real\<close>): the
  statements below are about the arithmetic the source writes down. The one place where the
  rounding of binary64 decides a value that a claim names, the juice split of
  \<^verbatim>\<open>simulate_slingshot_hit\<close>, is computed with the rounding written out (\<open>double_round\<close>).
  Its unbounded integers are \<^typ>\<open>int\<close>. Every call of \<^verbatim>\<open>random.random()\<close>,
  \<^verbatim>\<open>random.uniform\<close>, \<^verbatim>\<open>random.choice\<close> and \<^verbatim>\<open>datetime.now()\<close> is an explicit
  argument of the function that makes the call. An exception is a value \<open>Inl e\<close> of the
  result type \<open>py_error + 'a\<close>.
\<close>

datatype py_error = ValueError | KeyError | IndexError | ZeroDivisionError

text \<open>
  A \<^verbatim>\<open>dict\<close> keeps its keys in insertion order and assigning to a key that is present
  keeps the key's position. That is an association list with distinct keys, written to by
  \<^const>\<open>AList.update\<close> and read by \<^const>\<open>map_of\<close>.
\<close>

type_synonym ('k, 'v) dict = "('k \<times> 'v) list"

definition dict_get :: "('k, 'v) dict \<Rightarrow> 'k \<Rightarrow> 'v \<Rightarrow> 'v" where
  \<comment> \<open>\<^verbatim>\<open>d.get(k, default)\<close>\<close>
  "dict_get d k dflt = (case map_of d k of None \<Rightarrow> dflt | Some v \<Rightarrow> v)"

definition dict_item :: "('k, 'v) dict \<Rightarrow> 'k \<Rightarrow> py_error + 'v" where
  \<comment> \<open>\<^verbatim>\<open>d[k]\<close>\<close>
  "dict_item d k = (case map_of d k of None \<Rightarrow> Inl KeyError | Some v \<Rightarrow> Inr v)"

definition dict_set :: "('k, 'v) dict \<Rightarrow> 'k \<Rightarrow> 'v \<Rightarrow> ('k, 'v) dict" where
  \<comment> \<open>\<^verbatim>\<open>d[k] = v\<close>\<close>
  "dict_set d k v = AList.update k v d"

definition dict_from_keys :: "'k list \<Rightarrow> ('k \<Rightarrow> 'v) \<Rightarrow> ('k, 'v) dict" where
  \<comment> \<open>\<^verbatim>\<open>{k: f(k) for k in ks}\<close>\<close>
  "dict_from_keys ks f = foldl (\<lambda>d k. dict_set d k (f k)) [] ks"

text \<open>\<^verbatim>\<open>min(xs, key=f)\<close> and \<^verbatim>\<open>max(xs, key=f)\<close> return the first extremal element and raise
  \<^verbatim>\<open>ValueError\<close> on an empty sequence.\<close>

fun py_min_from :: "('a \<Rightarrow> real) \<Rightarrow> 'a \<Rightarrow> 'a list \<Rightarrow> 'a" where
  "py_min_from f best [] = best"
| "py_min_from f best (x # xs) = py_min_from f (if f x < f best then x else best) xs"

fun py_max_from :: "('a \<Rightarrow> real) \<Rightarrow> 'a \<Rightarrow> 'a list \<Rightarrow> 'a" where
  "py_max_from f best [] = best"
| "py_max_from f best (x # xs) = py_max_from f (if f best < f x then x else best) xs"

definition py_min :: "('a \<Rightarrow> real) \<Rightarrow> 'a list \<Rightarrow> py_error + 'a" where
  "py_min f xs = (case xs of [] \<Rightarrow> Inl ValueError | x # rest \<Rightarrow> Inr (py_min_from f x rest))"

definition py_max :: "('a \<Rightarrow> real) \<Rightarrow> 'a list \<Rightarrow> py_error + 'a" where
  "py_max f xs = (case xs of [] \<Rightarrow> Inl ValueError | x # rest \<Rightarrow> Inr (py_max_from f x rest))"

definition py_take :: "int \<Rightarrow> 'a list \<Rightarrow> 'a list" where
  \<comment> \<open>the slice \<^verbatim>\<open>xs[:n]\<close>; a negative \<open>n\<close> counts from the end\<close>
  "py_take n xs = (if 0 \<le> n then take (nat n) xs else take (nat (int (length xs) + n)) xs)"

definition py_last :: "nat \<Rightarrow> 'a list \<Rightarrow> 'a list" where
  \<comment> \<open>the slice \<^verbatim>\<open>xs[-n:]\<close> for a positive literal \<open>n\<close>\<close>
  "py_last n xs = drop (length xs - n) xs"

definition py_sort_desc :: "('a \<Rightarrow> real) \<Rightarrow> 'a list \<Rightarrow> 'a list" where
  \<comment> \<open>\<^verbatim>\<open>xs.sort(key=f, reverse=True)\<close>: descending and stable (equal keys keep their order)\<close>
  "py_sort_desc f xs = sort_key (\<lambda>x. - f x) xs"

definition py_sort_asc :: "('a \<Rightarrow> real) \<Rightarrow> 'a list \<Rightarrow> 'a list" where
  \<comment> \<open>\<^verbatim>\<open>sorted(xs, key=f)\<close>\<close>
  "py_sort_asc f xs = sort_key f xs"

definition py_int :: "real \<Rightarrow> int" where
  \<comment> \<open>\<^verbatim>\<open>int(x)\<close> of a float truncates towards zero\<close>
  "py_int r = (if 0 \<le> r then \<lfloor>r\<rfloor> else \<lceil>r\<rceil>)"

definition py_choice :: "nat \<Rightarrow> 'a list \<Rightarrow> py_error + 'a" where
  \<comment> \<open>\<^verbatim>\<open>random.choice(xs)\<close>; the draw is a natural number, reduced below \<open>length xs\<close>\<close>
  "py_choice k xs = (if xs = [] then Inl IndexError else Inr (xs ! (k mod length xs)))"

definition py_uniform :: "real \<Rightarrow> real \<Rightarrow> real \<Rightarrow> real" where
  \<comment> \<open>\<^verbatim>\<open>random.uniform(a, b)\<close> is \<^verbatim>\<open>a + (b - a) * random()\<close>; \<open>u\<close> is the draw of \<^verbatim>\<open>random()\<close>\<close>
  "py_uniform a b u = a + (b - a) * u"

text \<open>
  Binary64. A Python float is a double: a float literal denotes the double nearest to the
  decimal it writes, and an operation on doubles returns the double nearest to the exact
  result, a tie going to the even significand. \<open>double_round\<close> is that rounding on the
  reals of magnitude below \<open>2 ^ 1024\<close>: 53 bits of significand down to the exponent
  \<open>-1022\<close>, and the fixed spacing \<open>2 ^ -1074\<close> below it.
\<close>

fun binade_below :: "nat \<Rightarrow> real \<Rightarrow> int" where
  \<comment> \<open>for \<open>0 < x < 1\<close>: the exponent \<open>e\<close> with \<open>2 ^ e \<le> x < 2 ^ (e + 1)\<close>, not below minus the fuel\<close>
  "binade_below 0 x = 0"
| "binade_below (Suc n) x = (if 1 \<le> x then 0 else binade_below n (2 * x) - 1)"

fun binade_above :: "nat \<Rightarrow> real \<Rightarrow> int" where
  \<comment> \<open>for \<open>1 \<le> x\<close>: the exponent \<open>e\<close> with \<open>2 ^ e \<le> x < 2 ^ (e + 1)\<close>, not above the fuel\<close>
  "binade_above 0 x = 0"
| "binade_above (Suc n) x = (if x < 2 then 0 else binade_above n (x / 2) + 1)"

definition double_exponent :: "real \<Rightarrow> int" where
  "double_exponent x = (if 1 \<le> \<bar>x\<bar> then binade_above 1023 \<bar>x\<bar> else binade_below 1022 \<bar>x\<bar>)"

definition pow2 :: "int \<Rightarrow> real" where
  "pow2 e = (if 0 \<le> e then 2 ^ nat e else 1 / 2 ^ nat (- e))"

definition round_half_even :: "real \<Rightarrow> int" where
  "round_half_even r =
     (let f = \<lfloor>r\<rfloor>; d = r - real_of_int f
      in if d < 1 / 2 then f else if 1 / 2 < d then f + 1 else if even f then f else f + 1)"

definition double_round :: "real \<Rightarrow> real" where
  "double_round x =
     (if x = 0 then 0
      else (let q = double_exponent x - 52
            in real_of_int (round_half_even (x / pow2 q)) * pow2 q))"

definition lower_char :: "char \<Rightarrow> char" where
  "lower_char c = (let n = (of_char c :: nat) in if 65 \<le> n \<and> n \<le> 90 then char_of (n + 32) else c)"

definition py_lower :: "string \<Rightarrow> string" where
  \<comment> \<open>\<^verbatim>\<open>s.lower()\<close> on ASCII text\<close>
  "py_lower s = map lower_char s"

section \<open>memory\_logger.py\<close>

text \<open>
  A \<^verbatim>\<open>Memory\<close>. The ISO timestamp string is modelled by the instant it denotes, in seconds.
\<close>

record memory =
  content :: string
  importance :: real
  timestamp :: real
  references :: int

record memory_logger =
  agent_name :: string
  max_memories :: int
  memories :: "memory list"

definition new_memory :: "string \<Rightarrow> real \<Rightarrow> real \<Rightarrow> memory" where
  \<comment> \<open>\<^verbatim>\<open>Memory(content, importance)\<close> at clock reading \<open>now\<close>\<close>
  "new_memory c i now = \<lparr>content = c, importance = i, timestamp = now, references = 0\<rparr>"

definition memory_score :: "real \<Rightarrow> memory \<Rightarrow> py_error + real" where
  \<comment> \<open>the body of the loop of \<^verbatim>\<open>_curate_memories\<close>; a float division by zero raises\<close>
  "memory_score now m =
     (let age = now - timestamp m;
          d = 1 + age / 86400
      in if d = 0 then Inl ZeroDivisionError
         else Inr (importance m * (1 + real_of_int (references m) / 10) * (1 / d)))"

text \<open>The scoring loop reads the clock once per memory: \<open>clock i\<close> is the reading at the
  memory of index \<open>i\<close>.\<close>

fun score_memories :: "(nat \<Rightarrow> real) \<Rightarrow> nat \<Rightarrow> memory list \<Rightarrow> py_error + (memory \<times> real) list" where
  "score_memories clock i [] = Inr []"
| "score_memories clock i (m # ms) =
     (case memory_score (clock i) m of
        Inl e \<Rightarrow> Inl e
      | Inr s \<Rightarrow> (case score_memories clock (Suc i) ms of
                    Inl e \<Rightarrow> Inl e
                  | Inr rest \<Rightarrow> Inr ((m, s) # rest)))"

definition curate_memories :: "(nat \<Rightarrow> real) \<Rightarrow> memory_logger \<Rightarrow> py_error + memory_logger" where
  "curate_memories clock lg =
     (case score_memories clock 0 (memories lg) of
        Inl e \<Rightarrow> Inl e
      | Inr scored_memories \<Rightarrow>
          Inr (lg\<lparr>memories := map fst (py_take (max_memories lg) (py_sort_desc snd scored_memories))\<rparr>))"

text \<open>\<^verbatim>\<open>_save_memories\<close> writes a file and swallows every exception; it does not change the
  logger, so it is not part of the model.\<close>

definition add_memory :: "real \<Rightarrow> (nat \<Rightarrow> real) \<Rightarrow> string \<Rightarrow> real \<Rightarrow> memory_logger \<Rightarrow> py_error + memory_logger" where
  "add_memory now clock c i lg =
     (let lg1 = lg\<lparr>memories := memories lg @ [new_memory c i now]\<rparr>
      in if int (length (memories lg1)) > max_memories lg1 then curate_memories clock lg1
         else Inr lg1)"

text \<open>
  The \<^verbatim>\<open>context\<close> dictionary of \<^verbatim>\<open>get_relevant_memories\<close>: \<open>ctx_strike_price\<close> and
  \<open>ctx_spot_price\<close> are \<open>Some s\<close> for a value whose \<^verbatim>\<open>str()\<close> is \<open>s\<close> and \<open>None\<close> for a
  missing key, which \<^verbatim>\<open>str(None)\<close> prints as \<^verbatim>\<open>None\<close>.
\<close>

record memory_context =
  ctx_strike_price :: "string option"
  ctx_spot_price :: "string option"
  ctx_recent_success :: bool

definition py_str_opt :: "string option \<Rightarrow> string" where
  "py_str_opt v = (case v of None \<Rightarrow> ''None'' | Some s \<Rightarrow> s)"

definition relevance :: "memory_context \<Rightarrow> real \<Rightarrow> memory \<Rightarrow> real" where
  \<comment> \<open>\<open>u\<close> is the draw of \<^verbatim>\<open>random.random()\<close> for this memory\<close>
  "relevance ctx u m =
     (if sublist (py_str_opt (ctx_strike_price ctx)) (content m) then 0.3 else 0)
     + (if sublist (py_str_opt (ctx_spot_price ctx)) (content m) then 0.2 else 0)
     + (if ctx_recent_success ctx \<and> sublist ''success'' (py_lower (content m)) then 0.2
        else if \<not> ctx_recent_success ctx \<and> sublist ''fail'' (py_lower (content m)) then 0.2
        else 0)
     + u * 0.1"

definition touch :: "memory \<Rightarrow> real \<Rightarrow> memory" where
  \<comment> \<open>\<^verbatim>\<open>if relevance > 0: ...; memory.references += 1\<close>\<close>
  "touch m r = (if r > 0 then m\<lparr>references := references m + 1\<rparr> else m)"

definition get_relevant_memories ::
  "memory_context \<Rightarrow> int \<Rightarrow> (nat \<Rightarrow> real) \<Rightarrow> memory_logger \<Rightarrow> memory list \<times> memory_logger" where
  "get_relevant_memories ctx limit rnd lg =
     (let scored = map (\<lambda>(i, m). (m, relevance ctx (rnd i) m)) (enumerate 0 (memories lg));
          touched = map (\<lambda>(m, r). (touch m r, r)) scored;
          relevant_memories = filter (\<lambda>(m, r). r > 0) touched;
          selected_memories = map fst (py_take limit (py_sort_desc snd relevant_memories))
      in (selected_memories, lg\<lparr>memories := map fst touched\<rparr>))"

section \<open>Errors in sequence\<close>

definition err_bind :: "py_error + 'a \<Rightarrow> ('a \<Rightarrow> py_error + 'b) \<Rightarrow> py_error + 'b" where
  \<comment> \<open>run \<open>m\<close>; an exception propagates, a value is passed on\<close>
  "err_bind m f = (case m of Inl e \<Rightarrow> Inl e | Inr v \<Rightarrow> f v)"

definition dict_scale :: "('k, real) dict \<Rightarrow> 'k \<Rightarrow> real \<Rightarrow> py_error + ('k, real) dict" where
  \<comment> \<open>\<^verbatim>\<open>d[k] *= c\<close>\<close>
  "dict_scale d k c = (case map_of d k of None \<Rightarrow> Inl KeyError | Some v \<Rightarrow> Inr (dict_set d k (v * c)))"

section \<open>profiles/profile\_loader.py\<close>

text \<open>
  An \<^verbatim>\<open>AgentProfile\<close>, without the fields \<^verbatim>\<open>goal\<close> and \<^verbatim>\<open>strategies\<close> that no code reads.
  A trait is a number or a boolean. The profile files are not part of the sources, so
  the result of \<^verbatim>\<open>profile_manager.get_active_profile(role)\<close> is an input: \<open>None\<close> when no
  profile is loaded for the role.
\<close>

datatype trait_value = TNum real | TBool bool

fun trait_num :: "trait_value \<Rightarrow> real" where
  "trait_num (TNum r) = r"
| "trait_num (TBool b) = (if b then 1 else 0)"

fun trait_truthy :: "trait_value \<Rightarrow> bool" where
  "trait_truthy (TNum r) = (r \<noteq> 0)"
| "trait_truthy (TBool b) = b"

record agent_profile =
  profile_name :: string
  traits :: "(string, trait_value) dict"
  biases :: "(string, real) dict"
  behavior_weights :: "(string, real) dict"

datatype option_type = Call | Put

text \<open>
  The dictionary that \<^verbatim>\<open>get_game_state\<close> builds and the agents extend with their metrics
  (\<^verbatim>\<open>game_state.update(...)\<close>); a metric that is not yet set is \<open>None\<close>.
\<close>

record game_state =
  gs_spot_price :: real
  gs_strikes :: "int list"
  gs_tree_hits :: "(int, int) dict"
  gs_retail_juice :: "(int, real) dict"
  gs_mm_juice :: "(int, real) dict"
  gs_frame :: int
  gs_current_slingshot :: string
  gs_option_type :: option_type
  gs_recent_success_rate :: "real option"
  gs_crowd_size :: "int option"
  gs_recent_loss_rate :: "real option"
  gs_retail_clustering :: "real option"

definition metric :: "real option \<Rightarrow> real" where
  \<comment> \<open>\<^verbatim>\<open>game_state.get(key, 0)\<close>\<close>
  "metric v = (case v of None \<Rightarrow> 0 | Some r \<Rightarrow> r)"

definition normalize_weights :: "(string, real) dict \<Rightarrow> (string, real) dict" where
  "normalize_weights weights =
     (let total = sum_list (map snd weights)
      in if total > 0 then map (\<lambda>(k, v). (k, v / total)) weights else weights)"

definition apply_profile_to_agent ::
  "agent_profile option \<Rightarrow> string \<Rightarrow> game_state \<Rightarrow> py_error + (string, real) dict" where
  "apply_profile_to_agent active agent_type gs =
     (case active of
        None \<Rightarrow> Inr []
      | Some profile \<Rightarrow>
          (let weights = behavior_weights profile
           in err_bind
                (if agent_type = ''retail'' then
                   err_bind
                     (if metric (gs_recent_success_rate gs) > 0.5 then
                        err_bind (dict_item (biases profile) ''overconfidence'')
                          (\<lambda>b. dict_scale weights ''spot_distance'' (1 + b))
                      else Inr weights)
                     (\<lambda>w1. if metric (map_option real_of_int (gs_crowd_size gs)) > 3 then
                             err_bind (dict_item (biases profile) ''herd_mentality'')
                               (\<lambda>b. dict_scale w1 ''crowd_following'' (1 + b))
                           else Inr w1)
                 else if agent_type = ''monkey'' then
                   err_bind
                     (if metric (gs_recent_loss_rate gs) > 0.3 then
                        err_bind (dict_item (biases profile) ''loss_aversion'')
                          (\<lambda>b. dict_scale weights ''spot_distance'' (1 + b))
                      else Inr weights)
                     (\<lambda>w1. if metric (gs_retail_clustering gs) > 0.5 then
                             err_bind (dict_item (biases profile) ''recency'')
                               (\<lambda>b. dict_scale w1 ''retail_clustering'' (1 + b))
                           else Inr w1)
                 else Inr weights)
                (\<lambda>w2. Inr (normalize_weights w2))))"

definition recent_rate :: "bool list \<Rightarrow> real" where
  \<comment> \<open>\<^verbatim>\<open>sum(1 for h in xs[-5:] if h) / len(xs[-5:])\<close>, and \<open>0\<close> for an empty history\<close>
  "recent_rate xs =
     (if xs \<noteq> [] then real (length (filter id (py_last 5 xs))) / real (length (py_last 5 xs))
      else 0)"

definition record_result :: "bool \<Rightarrow> bool list \<Rightarrow> bool list" where
  \<comment> \<open>append, then keep the last ten\<close>
  "record_result b xs = (let ys = xs @ [b] in if length ys > 10 then py_last 10 ys else ys)"

definition push_history :: "int \<Rightarrow> int list \<Rightarrow> int list" where
  "push_history s xs = (let ys = xs @ [s] in if length ys > 10 then py_last 10 ys else ys)"

section \<open>retail\_agent.py\<close>

record retail_agent =
  last_target :: "int option"
  target_history :: "int list"
  recent_hits :: "bool list"
  crowd_size :: "(int, int) dict"

definition retail_update_game_state_metrics :: "retail_agent \<Rightarrow> game_state \<Rightarrow> game_state \<times> retail_agent" where
  "retail_update_game_state_metrics ag gs =
     (let recent_success_rate = recent_rate (recent_hits ag);
          crowd = foldl (\<lambda>d strike.
                    dict_set d strike
                      (py_int ((real_of_int (dict_get (gs_tree_hits gs) strike 0)
                                + dict_get (gs_retail_juice gs) strike 0 * 10) / 2)))
                    (crowd_size ag) (gs_strikes gs)
      in (gs\<lparr>gs_recent_success_rate := Some recent_success_rate,
              gs_crowd_size := Some (if crowd \<noteq> [] then Max (set (map snd crowd)) else 0)\<rparr>,
          ag\<lparr>crowd_size := crowd\<rparr>))"

definition retail_default_weights :: "(string, real) dict" where
  "retail_default_weights =
     [(''spot_distance'', 0.3), (''success_history'', 0.2), (''mm_defense'', 0.3), (''crowd_following'', 0.2)]"

definition retail_strike_score ::
  "retail_agent \<Rightarrow> game_state \<Rightarrow> (string, real) dict \<Rightarrow> int \<Rightarrow> py_error + real" where
  "retail_strike_score ag gs weights strike =
     (let distance = \<bar>real_of_int strike - gs_spot_price gs\<bar>;
          distance_score = 1 / (1 + distance / 5);
          history_score = (if strike \<in> set (py_last 5 (target_history ag)) then 1 else 0);
          mm_score = 1 - dict_get (gs_mm_juice gs) strike 0;
          crowd_score = min 1 (real_of_int (dict_get (crowd_size ag) strike 0) / 5)
      in err_bind (dict_item weights ''spot_distance'') (\<lambda>w_sd.
         err_bind (dict_item weights ''success_history'') (\<lambda>w_sh.
         err_bind (dict_item weights ''mm_defense'') (\<lambda>w_mm.
         err_bind (dict_item weights ''crowd_following'') (\<lambda>w_cf.
           Inr (0 + distance_score * w_sd + history_score * w_sh + mm_score * w_mm
                  + crowd_score * w_cf))))))"

fun retail_strike_scores ::
  "retail_agent \<Rightarrow> game_state \<Rightarrow> (string, real) dict \<Rightarrow> (int, real) dict \<Rightarrow> int list
     \<Rightarrow> py_error + (int, real) dict" where
  "retail_strike_scores ag gs weights acc [] = Inr acc"
| "retail_strike_scores ag gs weights acc (strike # rest) =
     err_bind (retail_strike_score ag gs weights strike)
       (\<lambda>score. retail_strike_scores ag gs weights (dict_set acc strike score) rest)"

definition retail_record_target :: "int \<Rightarrow> retail_agent \<Rightarrow> retail_agent" where
  "retail_record_target target ag =
     ag\<lparr>last_target := Some target, target_history := push_history target (target_history ag)\<rparr>"

text \<open>
  \<^verbatim>\<open>select_target\<close>. \<open>u_fomo\<close> is the draw of the FOMO test and \<open>k_choice\<close> the draw of
  \<^verbatim>\<open>random.choice\<close>. The result is the pair \<^verbatim>\<open>(target, confidence)\<close> and the agent after
  the call.
\<close>

definition select_target ::
  "agent_profile option \<Rightarrow> real \<Rightarrow> nat \<Rightarrow> retail_agent \<Rightarrow> game_state
     \<Rightarrow> py_error + ((int \<times> real) \<times> retail_agent)" where
  "select_target active u_fomo k_choice ag0 gs0 =
     (case retail_update_game_state_metrics ag0 gs0 of (gs, ag) \<Rightarrow>
      err_bind (apply_profile_to_agent active ''retail'' gs) (\<lambda>w.
      let weights = (if w = [] then retail_default_weights else w);
          strikes = gs_strikes gs
      in err_bind (retail_strike_scores ag gs weights [] strikes) (\<lambda>strike_scores.
         err_bind
           (if strike_scores \<noteq> [] then
              err_bind
                (case active of
                   Some profile \<Rightarrow>
                     if u_fomo < trait_num (dict_get (traits profile) ''fomo_threshold'' (TNum 0)) then
                       err_bind (py_max (\<lambda>s. real_of_int (dict_get (crowd_size ag) s 0)) strikes)
                         (\<lambda>max_crowd_strike. dict_scale strike_scores max_crowd_strike 1.5)
                     else Inr strike_scores
                 | None \<Rightarrow> Inr strike_scores)
                (\<lambda>scores. err_bind (py_max snd scores)
                   (\<lambda>best. err_bind (dict_item scores (fst best))
                      (\<lambda>confidence. Inr (fst best, confidence))))
            else err_bind (py_choice k_choice strikes) (\<lambda>target. Inr (target, 0.5)))
           (\<lambda>(target, confidence).
              Inr ((target, min confidence 1), retail_record_target target ag)))))"

definition record_hit :: "bool \<Rightarrow> retail_agent \<Rightarrow> retail_agent" where
  "record_hit hit ag = ag\<lparr>recent_hits := record_result hit (recent_hits ag)\<rparr>"

section \<open>monkey\_agent.py\<close>

record monkey_agent =
  defense_history :: "int list"
  last_defense :: "int option"
  recent_losses :: "bool list"
  retail_clusters :: "(int, real) dict"

fun monkey_clusters ::
  "game_state \<Rightarrow> int \<Rightarrow> real \<Rightarrow> (int, real) dict \<Rightarrow> int list \<Rightarrow> py_error + (int, real) dict" where
  "monkey_clusters gs total_hits total_juice acc [] = Inr acc"
| "monkey_clusters gs total_hits total_juice acc (strike # rest) =
     (if total_hits + 1 = 0 \<or> total_juice + 1 = 0 then Inl ZeroDivisionError
      else
        (let hits_ratio = real_of_int (dict_get (gs_tree_hits gs) strike 0) / real_of_int (total_hits + 1);
             juice_ratio = dict_get (gs_retail_juice gs) strike 0 / (total_juice + 1)
         in monkey_clusters gs total_hits total_juice
              (dict_set acc strike (max 0.01 ((hits_ratio + juice_ratio) / 2))) rest))"

definition monkey_update_game_state_metrics ::
  "monkey_agent \<Rightarrow> game_state \<Rightarrow> py_error + (game_state \<times> monkey_agent)" where
  "monkey_update_game_state_metrics ag gs =
     (let recent_loss_rate = recent_rate (recent_losses ag);
          total_hits = sum_list (map snd (gs_tree_hits gs));
          total_juice = sum_list (map snd (gs_retail_juice gs));
          initial = dict_from_keys (gs_strikes gs) (\<lambda>strike. 0.01)
      in err_bind
           (if total_hits > 0 \<or> total_juice > 0
            then monkey_clusters gs total_hits total_juice initial (gs_strikes gs)
            else Inr initial)
           (\<lambda>clusters. err_bind (py_max id (map snd clusters))
              (\<lambda>top. Inr (gs\<lparr>gs_recent_loss_rate := Some recent_loss_rate,
                              gs_retail_clustering := Some top\<rparr>,
                           ag\<lparr>retail_clusters := clusters\<rparr>))))"

definition monkey_default_weights :: "(string, real) dict" where
  "monkey_default_weights =
     [(''spot_distance'', 0.3), (''hit_history'', 0.2), (''juice_collection'', 0.3), (''retail_clustering'', 0.2)]"

definition monkey_strike_score ::
  "monkey_agent \<Rightarrow> game_state \<Rightarrow> (string, real) dict \<Rightarrow> int \<Rightarrow> py_error + real" where
  "monkey_strike_score ag gs weights strike =
     (let distance = \<bar>real_of_int strike - gs_spot_price gs\<bar>;
          distance_score = 1 / (1 + distance / 5);
          hit_score = min 1 (real_of_int (dict_get (gs_tree_hits gs) strike 0) / 10);
          juice_score = min 1 (dict_get (gs_retail_juice gs) strike 0);
          cluster_score = dict_get (retail_clusters ag) strike 0.01
      in err_bind (dict_item weights ''spot_distance'') (\<lambda>w_sd.
         err_bind (dict_item weights ''hit_history'') (\<lambda>w_hh.
         err_bind (dict_item weights ''juice_collection'') (\<lambda>w_jc.
         err_bind (dict_item weights ''retail_clustering'') (\<lambda>w_rc.
           Inr (0 + distance_score * w_sd + hit_score * w_hh + juice_score * w_jc
                  + cluster_score * w_rc))))))"

fun monkey_strike_scores ::
  "monkey_agent \<Rightarrow> game_state \<Rightarrow> (string, real) dict \<Rightarrow> (int, real) dict \<Rightarrow> int list
     \<Rightarrow> py_error + (int, real) dict" where
  "monkey_strike_scores ag gs weights acc [] = Inr acc"
| "monkey_strike_scores ag gs weights acc (strike # rest) =
     err_bind (monkey_strike_score ag gs weights strike)
       (\<lambda>score. monkey_strike_scores ag gs weights (dict_set acc strike score) rest)"

fun boost_defended :: "int list \<Rightarrow> (int, real) dict \<Rightarrow> int list \<Rightarrow> py_error + (int, real) dict" where
  \<comment> \<open>\<^verbatim>\<open>for strike in strikes: if strike in recent: strike_scores[strike] *= 1.2\<close>\<close>
  "boost_defended recent scores [] = Inr scores"
| "boost_defended recent scores (strike # rest) =
     (if strike \<in> set recent
      then err_bind (dict_scale scores strike 1.2) (\<lambda>scores'. boost_defended recent scores' rest)
      else boost_defended recent scores rest)"

definition monkey_modifiers ::
  "agent_profile option \<Rightarrow> monkey_agent \<Rightarrow> game_state \<Rightarrow> (int, real) dict \<Rightarrow> py_error + (int, real) dict" where
  "monkey_modifiers active ag gs strike_scores =
     (case active of
        None \<Rightarrow> Inr strike_scores
      | Some profile \<Rightarrow>
          err_bind
            (case gs_recent_loss_rate gs of
               None \<Rightarrow> Inl KeyError
             | Some rate \<Rightarrow>
                 if rate > trait_num (dict_get (traits profile) ''risk_aversion'' (TNum 0))
                 then boost_defended (py_last 3 (defense_history ag)) strike_scores (gs_strikes gs)
                 else Inr strike_scores)
            (\<lambda>scores.
               if trait_truthy (dict_get (traits profile) ''reflexivity_awareness'' (TBool False))
               then err_bind (py_max snd (retail_clusters ag))
                      (\<lambda>top. dict_scale scores (fst top) 1.3)
               else Inr scores))"

definition monkey_record_defense :: "int \<Rightarrow> monkey_agent \<Rightarrow> monkey_agent" where
  "monkey_record_defense s ag =
     ag\<lparr>last_defense := Some s, defense_history := push_history s (defense_history ag)\<rparr>"

definition predict_targets ::
  "agent_profile option \<Rightarrow> monkey_agent \<Rightarrow> game_state
     \<Rightarrow> py_error + ((int \<times> real) list \<times> monkey_agent)" where
  "predict_targets active ag0 gs0 =
     err_bind (monkey_update_game_state_metrics ag0 gs0) (\<lambda>(gs, ag).
     err_bind (apply_profile_to_agent active ''monkey'' gs) (\<lambda>w.
     let weights = (if w = [] then monkey_default_weights else w);
         strikes = gs_strikes gs
     in err_bind (monkey_strike_scores ag gs weights [] strikes) (\<lambda>strike_scores0.
        err_bind (monkey_modifiers active ag gs strike_scores0) (\<lambda>strike_scores.
        let sorted_strikes = py_sort_desc snd strike_scores;
            total_score = sum_list (map snd (take 3 sorted_strikes));
            predictions =
              (if total_score > 0
               then map (\<lambda>(strike, score). (strike, score / total_score)) (take 3 sorted_strikes)
               else map (\<lambda>s. (s, 1 / 3))
                      (take 3 (py_sort_asc (\<lambda>s. \<bar>real_of_int s - gs_spot_price gs\<bar>) strikes)))
        in (case predictions of
              [] \<Rightarrow> Inl IndexError
            | p # _ \<Rightarrow> Inr (predictions, monkey_record_defense (fst p) ag))))))"

definition record_defense_result :: "bool \<Rightarrow> monkey_agent \<Rightarrow> monkey_agent" where
  "record_defense_result success ag = ag\<lparr>recent_losses := record_result (\<not> success) (recent_losses ag)\<rparr>"

section \<open>engine.py: Coconut\<close>

text \<open>
  A slingshot is an entry of \<^verbatim>\<open>portfolio.json\<close>; the fields the engine reads are kept.
  The fields of a \<^verbatim>\<open>Coconut\<close> carry the prefix \<open>c_\<close>.
\<close>

record slingshot =
  sl_name :: string
  sl_power :: real
  sl_accuracy :: real
  sl_dte :: int
  sl_option_type :: option_type

record coconut =
  c_strike :: int
  c_x :: real
  c_y :: real
  c_target_x :: real
  c_target_y :: real
  c_slingshot :: slingshot
  c_t :: real
  c_speed :: real
  c_hit :: bool
  c_retail_juice :: real
  c_mm_juice :: real
  c_source_agent :: string
  c_alive :: bool
  c_frames_remaining :: int
  c_option_type :: option_type

definition new_coconut ::
  "int \<Rightarrow> real \<Rightarrow> real \<Rightarrow> real \<Rightarrow> real \<Rightarrow> real \<Rightarrow> bool \<Rightarrow> real \<Rightarrow> real \<Rightarrow> string \<Rightarrow> slingshot \<Rightarrow> coconut" where
  \<comment> \<open>the constructor as \<^verbatim>\<open>launch_coconut\<close> calls it, with \<^verbatim>\<open>__post_init__\<close>\<close>
  "new_coconut strike x y target_x target_y speed hit retail mm source sl =
     \<lparr>c_strike = strike, c_x = x, c_y = y, c_target_x = target_x, c_target_y = target_y,
      c_slingshot = sl, c_t = 0, c_speed = speed, c_hit = hit, c_retail_juice = retail,
      c_mm_juice = mm, c_source_agent = source, c_alive = True,
      c_frames_remaining = sl_dte sl * 60, c_option_type = sl_option_type sl\<rparr>"

definition coconut_update :: "real \<Rightarrow> coconut \<Rightarrow> coconut" where
  \<comment> \<open>\<^verbatim>\<open>Coconut.update\<close>; \<open>u\<close> is the draw behind \<^verbatim>\<open>random.uniform\<close>\<close>
  "coconut_update u c =
     (let c1 = c\<lparr>c_frames_remaining := c_frames_remaining c - 1\<rparr>
      in if c_frames_remaining c1 \<le> 0 then c1\<lparr>c_alive := False\<rparr>
         else
           (let c2 = c1\<lparr>c_t := c_t c1 + c_speed c1 * sl_power (c_slingshot c1)\<rparr>
            in if c_t c2 \<ge> 1 then c2\<lparr>c_alive := False\<rparr>
               else
                 (let accuracy_factor =
                        py_uniform (1 - (1 - sl_accuracy (c_slingshot c2)))
                                   (1 + (1 - sl_accuracy (c_slingshot c2))) u;
                      base_x = (1 - c_t c2) * c_x c2 + c_t c2 * c_target_x c2;
                      base_y = (1 - c_t c2) * c_y c2 + c_t c2 * c_target_y c2;
                      arc_height = 100 * sl_power (c_slingshot c2);
                      arc_offset = arc_height * c_t c2 * (1 - c_t c2)
                  in c2\<lparr>c_x := base_x * accuracy_factor, c_y := base_y - arc_offset\<rparr>)))"

section \<open>engine.py: GameEngine\<close>

text \<open>
  \<^verbatim>\<open>GameConfig\<close> after \<^verbatim>\<open>__post_init__\<close>, which always fills \<^verbatim>\<open>GAMMA_STRENGTH\<close>; the
  fields \<^verbatim>\<open>FPS\<close> and \<^verbatim>\<open>DTE\<close> are read by no code of the engine.
\<close>

record game_config =
  WIDTH :: int
  HEIGHT :: int
  SPOT_PRICE :: real
  STRIKES :: "int list"
  GAMMA_STRENGTH :: "(int, real) dict"
  IMPLIED_VOL :: real
  TRIALS :: int
  SLINGSHOTS :: "(string, slingshot) dict"
  DEFAULT_SLINGSHOT :: string

text \<open>
  The engine. \<^verbatim>\<open>ai_enabled\<close> is a dictionary with the two keys \<^verbatim>\<open>retail\<close> and \<^verbatim>\<open>monkey\<close>,
  here the two fields \<open>ai_retail\<close> and \<open>ai_monkey\<close>.
\<close>

record game_engine =
  config :: game_config
  retail_agent_of :: retail_agent
  monkey_agent_of :: monkey_agent
  retail_memory :: memory_logger
  monkey_memory :: memory_logger
  valid_strikes :: "int list"
  tree_hits :: "(int, int) dict"
  retail_juice :: "(int, real) dict"
  mm_juice :: "(int, real) dict"
  coconuts :: "coconut list"
  frame :: int
  paused :: bool
  ai_retail :: bool
  ai_monkey :: bool
  TREE_X :: "(int, real) dict"
  TREE_Y :: int
  current_slingshot :: slingshot

text \<open>
  What one call of \<^verbatim>\<open>update\<close> reads from outside the engine: the answer of
  \<^verbatim>\<open>market_data.get_slingshot_targets\<close> (strike and attractiveness of each target, best
  first), the active profiles, the random draws, the clock readings of the two memory
  loggers and the rendering of a float by \<^verbatim>\<open>str\<close>.
\<close>

record tick_env =
  market_targets :: "(int \<times> real) list"
  retail_profile :: "agent_profile option"
  monkey_profile :: "agent_profile option"
  u_fomo :: real
  k_choice :: nat
  u_defense :: real
  u_hit :: real
  u_speed :: real
  u_jitter :: "nat \<Rightarrow> real"
  now_monkey :: real
  clock_monkey :: "nat \<Rightarrow> real"
  now_retail :: real
  clock_retail :: "nat \<Rightarrow> real"
  str_float :: "real \<Rightarrow> string"

fun str_nat :: "nat \<Rightarrow> string" where
  "str_nat n = (if n < 10 then [char_of (48 + n)] else str_nat (n div 10) @ [char_of (48 + n mod 10)])"

definition str_int :: "int \<Rightarrow> string" where
  "str_int i = (if i < 0 then CHR ''-'' # str_nat (nat (- i)) else str_nat (nat i))"

definition str_option_type :: "option_type \<Rightarrow> string" where
  "str_option_type ot = (case ot of Call \<Rightarrow> ''call'' | Put \<Rightarrow> ''put'')"

definition tree_positions :: "int list \<Rightarrow> real \<Rightarrow> (int, real) dict" where
  \<comment> \<open>\<^verbatim>\<open>{strike: start_x + i * spacing for i, strike in enumerate(valid_strikes)}\<close>\<close>
  "tree_positions vs spacing =
     foldl (\<lambda>d (i, strike). dict_set d strike (50 + real i * spacing)) [] (enumerate 0 vs)"

definition init_engine :: "game_config \<Rightarrow> memory list \<Rightarrow> memory list \<Rightarrow> py_error + game_engine" where
  \<comment> \<open>\<^verbatim>\<open>GameEngine.__init__\<close>; the two lists are the memories the loggers load from their files\<close>
  "init_engine cfg retail_loaded monkey_loaded =
     (let vs = sort (STRIKES cfg)
      in err_bind (py_max real_of_int vs) (\<lambda>hi.
         err_bind (py_min real_of_int vs) (\<lambda>lo.
         let spacing = min 30 (real_of_int (WIDTH cfg - 100) / real (length vs + 1))
         in err_bind (dict_item (SLINGSHOTS cfg) (DEFAULT_SLINGSHOT cfg)) (\<lambda>sl.
            Inr \<lparr>config = cfg,
                 retail_agent_of = \<lparr>last_target = None, target_history = [], recent_hits = [], crowd_size = []\<rparr>,
                 monkey_agent_of = \<lparr>defense_history = [], last_defense = None, recent_losses = [], retail_clusters = []\<rparr>,
                 retail_memory = \<lparr>agent_name = ''retail'', max_memories = 100, memories = retail_loaded\<rparr>,
                 monkey_memory = \<lparr>agent_name = ''monkey'', max_memories = 100, memories = monkey_loaded\<rparr>,
                 valid_strikes = vs,
                 tree_hits = dict_from_keys vs (\<lambda>s. 0),
                 retail_juice = dict_from_keys vs (\<lambda>s. 0),
                 mm_juice = dict_from_keys vs (\<lambda>s. 0),
                 coconuts = [],
                 frame = 0,
                 paused = False,
                 ai_retail = True,
                 ai_monkey = True,
                 TREE_X = tree_positions vs spacing,
                 TREE_Y = HEIGHT cfg - 120,
                 current_slingshot = sl\<rparr>))))"

definition get_valid_strike :: "int list \<Rightarrow> real \<Rightarrow> py_error + int" where
  \<comment> \<open>\<^verbatim>\<open>_get_valid_strike\<close>: a strike equal to a member is kept, any other goes to the first
      member at the least distance\<close>
  "get_valid_strike vs strike =
     (case find (\<lambda>v. real_of_int v = strike) vs of
        Some v \<Rightarrow> Inr v
      | None \<Rightarrow> py_min (\<lambda>x. \<bar>real_of_int x - strike\<bar>) vs)"

definition get_tree_position :: "game_engine \<Rightarrow> real \<Rightarrow> py_error + (real \<times> int)" where
  "get_tree_position e strike =
     err_bind (get_valid_strike (valid_strikes e) strike) (\<lambda>s.
     err_bind (dict_item (TREE_X e) s) (\<lambda>x. Inr (x, TREE_Y e)))"

definition update_game_state :: "game_engine \<Rightarrow> real \<Rightarrow> bool \<Rightarrow> real \<Rightarrow> real \<Rightarrow> py_error + game_engine" where
  "update_game_state e strike hit retail mm =
     err_bind (get_valid_strike (valid_strikes e) strike) (\<lambda>valid_strike.
       if hit then
         err_bind (dict_item (tree_hits e) valid_strike) (\<lambda>h.
         err_bind (dict_item (retail_juice e) valid_strike) (\<lambda>r.
         err_bind (dict_item (mm_juice e) valid_strike) (\<lambda>m.
           Inr (e\<lparr>tree_hits := dict_set (tree_hits e) valid_strike (h + 1),
                   retail_juice := dict_set (retail_juice e) valid_strike (r + retail),
                   mm_juice := dict_set (mm_juice e) valid_strike (m + mm)\<rparr>))))
       else Inr e)"

definition get_game_state :: "game_engine \<Rightarrow> game_state" where
  "get_game_state e =
     \<lparr>gs_spot_price = SPOT_PRICE (config e),
      gs_strikes = valid_strikes e,
      gs_tree_hits = tree_hits e,
      gs_retail_juice = retail_juice e,
      gs_mm_juice = mm_juice e,
      gs_frame = frame e,
      gs_current_slingshot = sl_name (current_slingshot e),
      gs_option_type = sl_option_type (current_slingshot e),
      gs_recent_success_rate = None,
      gs_crowd_size = None,
      gs_recent_loss_rate = None,
      gs_retail_clustering = None\<rparr>"

definition monkey_defense ::
  "tick_env \<Rightarrow> game_engine \<Rightarrow> int \<Rightarrow> real \<Rightarrow> py_error + (real \<times> game_engine)" where
  \<comment> \<open>lines 234 to 255: the base chance after the monkey's prediction, and the engine after
      the monkey's bookkeeping\<close>
  "monkey_defense env e strike_price base_hit_chance =
     (if ai_monkey e then
        err_bind (predict_targets (monkey_profile env) (monkey_agent_of e) (get_game_state e))
          (\<lambda>(predictions, ag).
             let defense_strikes = map fst predictions;
                 e1 = e\<lparr>monkey_agent_of := ag\<rparr>
             in if strike_price \<in> set defense_strikes then
                  (let halved = base_hit_chance * 0.5;
                       defense_success = (u_defense env > halved);
                       text = (if defense_success then ''Successfully defended '' else ''Failed to defend '')
                              @ str_option_type (sl_option_type (current_slingshot e))
                              @ '' strike '' @ str_int strike_price
                   in err_bind (add_memory (now_monkey env) (clock_monkey env) text
                                  (if defense_success then 0.8 else 0.6) (monkey_memory e1))
                        (\<lambda>lg. Inr (halved,
                                    e1\<lparr>monkey_agent_of := record_defense_result defense_success ag,
                                       monkey_memory := lg\<rparr>)))
                else Inr (base_hit_chance, e1))
      else Inr (base_hit_chance, e))"

definition final_hit_chance :: "game_engine \<Rightarrow> real \<Rightarrow> int \<Rightarrow> real \<Rightarrow> real \<Rightarrow> real" where
  \<comment> \<open>lines 258 to 283, for the gamma value \<open>g\<close> read at the strike\<close>
  "final_hit_chance e spot_price strike_price g base_hit_chance =
     (let wind_penalty = IMPLIED_VOL (config e) / 100;
          gamma_penalty = g / 10;
          decay_penalty = max 0.1 (real_of_int (sl_dte (current_slingshot e)) / 30);
          accuracy_bonus = sl_accuracy (current_slingshot e) * 0.2;
          power_factor = sl_power (current_slingshot e) * 0.1;
          option_mod =
            (if sl_option_type (current_slingshot e) = Call
             then (if spot_price > real_of_int strike_price then 1.1 else 0.9)
             else (if spot_price < real_of_int strike_price then 1.1 else 0.9));
          chance = base_hit_chance * (1 - wind_penalty) * (1 - gamma_penalty) * (1 / decay_penalty)
                     * (1 + accuracy_bonus) * (1 + power_factor) * option_mod
      in max 0 (min chance 1))"

text \<open>
  \<^verbatim>\<open>simulate_slingshot_hit\<close>. The juice split of lines 286 and 287 is computed in binary64:
  \<^verbatim>\<open>0.7\<close> is the double that the literal denotes and \<^verbatim>\<open>1 - mm_juice\<close> is the rounded
  difference of the doubles 1.0 and \<^verbatim>\<open>mm_juice\<close>.
\<close>

definition simulate_slingshot_hit ::
  "tick_env \<Rightarrow> game_engine \<Rightarrow> real \<Rightarrow> real \<Rightarrow> py_error + ((bool \<times> real \<times> real) \<times> game_engine)" where
  "simulate_slingshot_hit env e spot_price strike0 =
     err_bind (get_valid_strike (valid_strikes e) strike0) (\<lambda>strike_price.
     let delta_distance = \<bar>spot_price - real_of_int strike_price\<bar>;
         base0 = 1 / (1 + delta_distance)
     in err_bind (monkey_defense env e strike_price base0) (\<lambda>(base_hit_chance, e1).
        err_bind (dict_item (GAMMA_STRENGTH (config e1)) strike_price) (\<lambda>g.
        let hit = (u_hit env < final_hit_chance e1 spot_price strike_price g base_hit_chance);
            mm = (if hit then double_round 0.7 else 0);
            retail = (if hit then double_round (1 - mm) else 0);
            text = (if hit
                    then ''Hit '' @ str_option_type (sl_option_type (current_slingshot e1))
                         @ '' strike '' @ str_int strike_price @ '' at spot '' @ str_float env spot_price
                    else ''Missed '' @ str_option_type (sl_option_type (current_slingshot e1))
                         @ '' strike '' @ str_int strike_price)
        in err_bind (add_memory (now_retail env) (clock_retail env) text (if hit then 0.7 else 0.5)
                       (retail_memory e1))
             (\<lambda>lg. Inr ((hit, retail, mm),
                         e1\<lparr>retail_agent_of := record_hit hit (retail_agent_of e1),
                            retail_memory := lg\<rparr>)))))"

definition choose_target :: "tick_env \<Rightarrow> game_engine \<Rightarrow> py_error + (int \<times> game_engine)" where
  \<comment> \<open>lines 309 to 328 of \<^verbatim>\<open>launch_coconut\<close>\<close>
  "choose_target env e =
     (if ai_retail e then
        (case market_targets env of
           target_data # _ \<Rightarrow> Inr (fst target_data, e)
         | [] \<Rightarrow>
             err_bind (select_target (retail_profile env) (u_fomo env) (k_choice env)
                         (retail_agent_of e) (get_game_state e))
               (\<lambda>((target, confidence), ag).
                  err_bind (get_valid_strike (valid_strikes e) (real_of_int target))
                    (\<lambda>valid. Inr (valid, e\<lparr>retail_agent_of := ag\<rparr>))))
      else err_bind (py_choice (k_choice env) (valid_strikes e)) (\<lambda>target. Inr (target, e)))"

definition launch_coconut :: "tick_env \<Rightarrow> game_engine \<Rightarrow> py_error + (coconut option \<times> game_engine)" where
  "launch_coconut env e =
     (if frame e \<ge> TRIALS (config e) then Inr (None, e)
      else
        err_bind (choose_target env e) (\<lambda>(target, e1).
        err_bind (simulate_slingshot_hit env e1 (SPOT_PRICE (config e1)) (real_of_int target))
          (\<lambda>((hit, retail, mm), e2).
        err_bind (get_tree_position e2 (real_of_int target)) (\<lambda>(tree_x, tree_y).
          Inr (Some (new_coconut target (real_of_int (WIDTH (config e2) div 2)) 0
                       (tree_x + 10) (real_of_int tree_y)
                       (py_uniform 0.01 0.03 (u_speed env)) hit retail mm
                       (if ai_retail e2 then ''retail'' else ''random'')
                       (current_slingshot e2)),
               e2)))))"

definition switch_slingshot :: "string \<Rightarrow> game_engine \<Rightarrow> bool \<times> game_engine" where
  "switch_slingshot slingshot_name e =
     (case map_of (SLINGSHOTS (config e)) slingshot_name of
        Some sl \<Rightarrow> (True, e\<lparr>current_slingshot := sl\<rparr>)
      | None \<Rightarrow> (False, e))"

text \<open>
  The loop of \<^verbatim>\<open>update\<close> over a copy of the list. A coconut that dies is folded into the
  aggregate maps and removed; \<^verbatim>\<open>list.remove\<close> takes out the first element equal to it,
  which is the coconut itself, since every element before it is alive. The engine's list
  is rebuilt from the survivors, in order. \<open>uj i\<close> is the jitter draw of the coconut of
  index \<open>i\<close>.
\<close>

fun update_coconuts :: "(nat \<Rightarrow> real) \<Rightarrow> nat \<Rightarrow> coconut list \<Rightarrow> game_engine \<Rightarrow> py_error + game_engine" where
  "update_coconuts uj i [] e = Inr e"
| "update_coconuts uj i (c # cs) e =
     (let c' = coconut_update (uj i) c
      in if \<not> c_alive c' then
           err_bind (update_game_state e (real_of_int (c_strike c')) (c_hit c')
                       (c_retail_juice c') (c_mm_juice c'))
             (\<lambda>e'. update_coconuts uj (Suc i) cs e')
         else update_coconuts uj (Suc i) cs (e\<lparr>coconuts := coconuts e @ [c']\<rparr>))"

definition update :: "tick_env \<Rightarrow> game_engine \<Rightarrow> py_error + game_engine" where
  "update env e =
     (if paused e then Inr e
      else
        err_bind (launch_coconut env e) (\<lambda>(launched, e1).
          let e2 = (case launched of
                      Some coconut \<Rightarrow> e1\<lparr>coconuts := coconuts e1 @ [coconut], frame := frame e1 + 1\<rparr>
                    | None \<Rightarrow> e1)
          in update_coconuts (u_jitter env) 0 (coconuts e2) (e2\<lparr>coconuts := []\<rparr>)))"

definition toggle_pause :: "game_engine \<Rightarrow> game_engine" where
  "toggle_pause e = e\<lparr>paused := \<not> paused e\<rparr>"

definition toggle_ai :: "string \<Rightarrow> game_engine \<Rightarrow> game_engine" where
  "toggle_ai agent_type e =
     (if agent_type = ''retail'' then e\<lparr>ai_retail := \<not> ai_retail e\<rparr>
      else if agent_type = ''monkey'' then e\<lparr>ai_monkey := \<not> ai_monkey e\<rparr>
      else e)"

definition reset :: "game_engine \<Rightarrow> game_engine" where
  "reset e =
     e\<lparr>tree_hits := dict_from_keys (valid_strikes e) (\<lambda>s. 0),
       retail_juice := dict_from_keys (valid_strikes e) (\<lambda>s. 0),
       mm_juice := dict_from_keys (valid_strikes e) (\<lambda>s. 0),
       coconuts := [],
       frame := 0\<rparr>"

section \<open>A concrete episode\<close>

text \<open>
  The end-to-end scenario of the specification: strikes 625, 630 and 635, spot 628, the
  same gamma at every strike and a single trial. The slingshot, the draws and the clock
  are one choice among those the scenario leaves open; no profile is loaded and the
  market data offer no target, so the retail agent selects the strike.
\<close>

definition scenario_slingshot :: slingshot where
  "scenario_slingshot =
     \<lparr>sl_name = ''basic'', sl_power = 1, sl_accuracy = 0.8, sl_dte = 5, sl_option_type = Call\<rparr>"

definition scenario_config :: game_config where
  "scenario_config =
     \<lparr>WIDTH = 1280, HEIGHT = 720, SPOT_PRICE = 628, STRIKES = [625, 630, 635],
      GAMMA_STRENGTH = [(625, 0.5), (630, 0.5), (635, 0.5)], IMPLIED_VOL = 13.7, TRIALS = 1,
      SLINGSHOTS = [(''basic'', scenario_slingshot)], DEFAULT_SLINGSHOT = ''basic''\<rparr>"

definition scenario_env :: tick_env where
  "scenario_env =
     \<lparr>market_targets = [], retail_profile = None, monkey_profile = None,
      u_fomo = 1 / 2, k_choice = 0, u_defense = 1 / 2, u_hit = 0, u_speed = 1 / 2,
      u_jitter = (\<lambda>i. 1 / 2), now_monkey = 1000, clock_monkey = (\<lambda>i. 1000),
      now_retail = 1000, clock_retail = (\<lambda>i. 1000), str_float = (\<lambda>r. ''628.0'')\<rparr>"

definition scenario_engine :: game_engine where
  \<comment> \<open>the engine that \<^const>\<open>init_engine\<close> builds for the scenario, with empty memory files\<close>
  "scenario_engine =
     \<lparr>config = scenario_config,
      retail_agent_of = \<lparr>last_target = None, target_history = [], recent_hits = [], crowd_size = []\<rparr>,
      monkey_agent_of = \<lparr>defense_history = [], last_defense = None, recent_losses = [], retail_clusters = []\<rparr>,
      retail_memory = \<lparr>agent_name = ''retail'', max_memories = 100, memories = []\<rparr>,
      monkey_memory = \<lparr>agent_name = ''monkey'', max_memories = 100, memories = []\<rparr>,
      valid_strikes = [625, 630, 635],
      tree_hits = [(625, 0), (630, 0), (635, 0)],
      retail_juice = [(625, 0), (630, 0), (635, 0)],
      mm_juice = [(625, 0), (630, 0), (635, 0)],
      coconuts = [],
      frame = 0,
      paused = False,
      ai_retail = True,
      ai_monkey = True,
      TREE_X = [(625, 50), (630, 80), (635, 110)],
      TREE_Y = 600,
      current_slingshot = scenario_slingshot\<rparr>"

definition scenario_coconut :: coconut where
  \<comment> \<open>a coconut as the scenario launches it at strike 630\<close>
  "scenario_coconut =
     new_coconut 630 640 0 90 600 (1 / 50) True (double_round (1 - double_round 0.7))
       (double_round 0.7) ''retail'' scenario_slingshot"

definition half_draws :: "nat \<Rightarrow> real" where
  "half_draws i = 1 / 2"

definition zero_draws :: "nat \<Rightarrow> real" where
  \<comment> \<open>\<^verbatim>\<open>random.random()\<close> ranges over the half-open interval from 0, so 0 is a possible draw\<close>
  "zero_draws i = 0"

definition quiet_logger :: memory_logger where
  "quiet_logger =
     \<lparr>agent_name = ''retail'', max_memories = 100,
      memories = [\<lparr>content = ''Missed call strike 630'', importance = 1 / 2,
                   timestamp = 1000, references = 0\<rparr>]\<rparr>"

definition quiet_context :: memory_context where
  "quiet_context =
     \<lparr>ctx_strike_price = Some ''625'', ctx_spot_price = Some ''628.0'', ctx_recent_success = True\<rparr>"

section \<open>The specification's hit probability\<close>

text \<open>
  The hit probability in the words of the specification: the base chance
  \<open>1 / (1 + |spot - strike|)\<close>, halved for a defended strike, times the six modifiers,
  clamped to the interval from 0 to 1. It is compared below with what
  \<^const>\<open>simulate_slingshot_hit\<close> computes.
\<close>

definition spec_hit_probability :: "real \<Rightarrow> real \<Rightarrow> bool \<Rightarrow> real \<Rightarrow> real \<Rightarrow> slingshot \<Rightarrow> real" where
  "spec_hit_probability spot strike defended implied_vol gamma_at_strike sl =
     (let base = 1 / (1 + \<bar>spot - strike\<bar>);
          base' = (if defended then base / 2 else base);
          option_mod = (if (sl_option_type sl = Call \<and> spot > strike) \<or> (sl_option_type sl = Put \<and> spot < strike)
                        then 1.1 else 0.9);
          p = base' * (1 - implied_vol / 100) * (1 - gamma_at_strike / 10)
                * (1 / max 0.1 (real_of_int (sl_dte sl) / 30))
                * (1 + sl_accuracy sl * 0.2) * (1 + sl_power sl * 0.1) * option_mod
      in if p < 0 then 0 else if p > 1 then 1 else p)"

text \<open>The strike is among the monkey agent's predicted defense strikes; the prediction is
  asked for only when the monkey AI is enabled.\<close>

definition defended_by_monkey :: "tick_env \<Rightarrow> game_engine \<Rightarrow> int \<Rightarrow> bool" where
  "defended_by_monkey env e k =
     (ai_monkey e \<and>
      (case predict_targets (monkey_profile env) (monkey_agent_of e) (get_game_state e) of
         Inl err \<Rightarrow> False
       | Inr (predictions, ag) \<Rightarrow> k \<in> set (map fst predictions)))"

section \<open>Sequences of calls and small stores\<close>

text \<open>A sequence of \<^verbatim>\<open>add_memory\<close> calls, each with its clock readings; it stops at the
  first call that raises.\<close>

fun add_memories :: "(real \<times> (nat \<Rightarrow> real) \<times> string \<times> real) list \<Rightarrow> memory_logger \<Rightarrow> py_error + memory_logger" where
  "add_memories [] lg = Inr lg"
| "add_memories ((now, clock, c, i) # rest) lg = err_bind (add_memory now clock c i lg) (add_memories rest)"

definition steady_clock :: "nat \<Rightarrow> real" where
  "steady_clock i = 1000"

definition small_logger :: memory_logger where
  "small_logger =
     \<lparr>agent_name = ''retail'', max_memories = 2,
      memories = [\<lparr>content = ''Hit call strike 630 at spot 628.0'', importance = 7 / 10,
                   timestamp = 1000, references = 0\<rparr>,
                  \<lparr>content = ''Missed call strike 625'', importance = 1 / 2,
                   timestamp = 1000, references = 0\<rparr>]\<rparr>"

definition small_logger_after :: memory_logger where
  "small_logger_after =
     \<lparr>agent_name = ''retail'', max_memories = 2,
      memories = [\<lparr>content = ''Hit call strike 630 at spot 628.0'', importance = 7 / 10,
                   timestamp = 1000, references = 0\<rparr>,
                  \<lparr>content = ''Missed put strike 635'', importance = 3 / 5,
                   timestamp = 1000, references = 0\<rparr>]\<rparr>"

section \<open>The retail agent without a profile\<close>

text \<open>The score of a strike under the default weights of \<^verbatim>\<open>select_target\<close>: 0.3 for the
  distance to the spot, 0.2 for the history, 0.3 for the market-maker defense and 0.2 for
  the crowd.\<close>

definition retail_default_score :: "retail_agent \<Rightarrow> game_state \<Rightarrow> int \<Rightarrow> real" where
  "retail_default_score ag gs strike =
     (1 / (1 + \<bar>real_of_int strike - gs_spot_price gs\<bar> / 5)) * 0.3
     + (if strike \<in> set (py_last 5 (target_history ag)) then 1 else 0) * 0.2
     + (1 - dict_get (gs_mm_juice gs) strike 0) * 0.3
     + min 1 (real_of_int (dict_get (crowd_size ag) strike 0) / 5) * 0.2"

definition empty_strikes_state :: game_state where
  "empty_strikes_state = (get_game_state scenario_engine)\<lparr>gs_strikes := []\<rparr>"

definition scenario_retail_after :: retail_agent where
  "scenario_retail_after =
     \<lparr>last_target = Some 630, target_history = [630], recent_hits = [],
      crowd_size = [(625, 0), (630, 0), (635, 0)]\<rparr>"

section \<open>Episodes\<close>

text \<open>
  What the user interface and the main loops do to an engine between its construction and
  any later moment: \<^verbatim>\<open>update\<close>, \<^verbatim>\<open>toggle_pause\<close>, \<^verbatim>\<open>toggle_ai\<close>, \<^verbatim>\<open>reset\<close>,
  \<^verbatim>\<open>switch_slingshot\<close>, and the refresh task of \<^verbatim>\<open>main.py\<close>, which assigns the spot price
  and the implied volatility of the configuration. An episode stops at the first call
  that raises.
\<close>

datatype engine_op =
    Update tick_env
  | TogglePause
  | ToggleAI string
  | Reset
  | SwitchSlingshot string
  | RefreshMarket real real

fun apply_op :: "engine_op \<Rightarrow> game_engine \<Rightarrow> py_error + game_engine" where
  "apply_op (Update env) e = update env e"
| "apply_op TogglePause e = Inr (toggle_pause e)"
| "apply_op (ToggleAI agent_type) e = Inr (toggle_ai agent_type e)"
| "apply_op Reset e = Inr (reset e)"
| "apply_op (SwitchSlingshot n) e = Inr (snd (switch_slingshot n e))"
| "apply_op (RefreshMarket price vol) e =
     Inr (e\<lparr>config := (config e)\<lparr>SPOT_PRICE := price, IMPLIED_VOL := vol\<rparr>\<rparr>)"

fun run_ops :: "engine_op list \<Rightarrow> game_engine \<Rightarrow> py_error + game_engine" where
  "run_ops [] e = Inr e"
| "run_ops (op # ops) e = err_bind (apply_op op e) (run_ops ops)"

fun updates :: "tick_env list \<Rightarrow> game_engine \<Rightarrow> py_error + game_engine" where
  "updates [] e = Inr e"
| "updates (env # envs) e = err_bind (update env e) (updates envs)"

text \<open>Two engine states with the same configuration, aggregate maps, coconuts and frame:
  what the agents and the memory loggers never touch.\<close>

definition same_board :: "game_engine \<Rightarrow> game_engine \<Rightarrow> bool" where
  "same_board e e' =
     (config e' = config e \<and> valid_strikes e' = valid_strikes e \<and> tree_hits e' = tree_hits e
      \<and> retail_juice e' = retail_juice e \<and> mm_juice e' = mm_juice e \<and> coconuts e' = coconuts e
      \<and> frame e' = frame e \<and> paused e' = paused e \<and> current_slingshot e' = current_slingshot e
      \<and> TREE_X e' = TREE_X e \<and> TREE_Y e' = TREE_Y e \<and> ai_retail e' = ai_retail e)"

text \<open>The scenario after its first and after its second \<^verbatim>\<open>update\<close>.\<close>

definition scenario_after_one :: game_engine where
  "scenario_after_one =
     scenario_engine
       \<lparr>retail_agent_of := \<lparr>last_target = Some 630, target_history = [630], recent_hits = [True],
                            crowd_size = [(625, 0), (630, 0), (635, 0)]\<rparr>,
        monkey_agent_of := \<lparr>defense_history = [630], last_defense = Some 630, recent_losses = [False],
                            retail_clusters = [(625, 1 / 100), (630, 1 / 100), (635, 1 / 100)]\<rparr>,
        retail_memory := \<lparr>agent_name = ''retail'', max_memories = 100,
                          memories = [\<lparr>content = ''Hit call strike 630 at spot 628.0'',
                                       importance = 7 / 10, timestamp = 1000, references = 0\<rparr>]\<rparr>,
        monkey_memory := \<lparr>agent_name = ''monkey'', max_memories = 100,
                          memories = [\<lparr>content = ''Successfully defended call strike 630'',
                                       importance = 4 / 5, timestamp = 1000, references = 0\<rparr>]\<rparr>,
        coconuts := [coconut_update (1 / 2) scenario_coconut],
        frame := 1\<rparr>"

definition scenario_after_two :: game_engine where
  "scenario_after_two =
     scenario_after_one\<lparr>coconuts := [coconut_update (1 / 2) (coconut_update (1 / 2) scenario_coconut)]\<rparr>"

text \<open>A strike whose entry in one of the three aggregate maps differs between two engine
  states: the strike received an increment.\<close>

definition strike_changed :: "game_engine \<Rightarrow> game_engine \<Rightarrow> int \<Rightarrow> bool" where
  "strike_changed e e' s =
     (map_of (tree_hits e') s \<noteq> map_of (tree_hits e) s
      \<or> map_of (retail_juice e') s \<noteq> map_of (retail_juice e) s
      \<or> map_of (mm_juice e') s \<noteq> map_of (mm_juice e) s)"

section \<open>Basic facts\<close>

lemma err_bind_Inr [simp]: "err_bind (Inr v) f = f v"
  by (simp add: err_bind_def)

lemma err_bind_Inl [simp]: "err_bind (Inl e) f = Inl e"
  by (simp add: err_bind_def)

lemma err_bind_eq_Inr: "err_bind m f = Inr r \<longleftrightarrow> (\<exists>v. m = Inr v \<and> f v = Inr r)"
  by (cases m) auto

lemma py_min_from_in: "py_min_from f b xs \<in> insert b (set xs)"
  by (induction xs arbitrary: b) (auto split: if_splits)

lemma py_min_from_le: "f (py_min_from f b xs) \<le> f b"
proof (induction xs arbitrary: b)
  case Nil
  show ?case by simp
next
  case (Cons x xs)
  show ?case using Cons[of "if f x < f b then x else b"] by (auto split: if_splits)
qed

lemma py_min_from_least: "v \<in> set xs \<Longrightarrow> f (py_min_from f b xs) \<le> f v"
proof (induction xs arbitrary: b)
  case Nil
  then show ?case by simp
next
  case (Cons x xs)
  show ?case
  proof (cases "v = x")
    case True
    have "f (py_min_from f (if f x < f b then x else b) xs) \<le> f (if f x < f b then x else b)"
      by (rule py_min_from_le)
    then show ?thesis using True by (auto split: if_splits)
  next
    case False
    then have "v \<in> set xs" using Cons.prems by simp
    then show ?thesis using Cons.IH by simp
  qed
qed

lemma py_min_nonempty:
  assumes "xs \<noteq> []"
  shows "\<exists>k. py_min f xs = Inr k \<and> k \<in> set xs \<and> (\<forall>v\<in>set xs. f k \<le> f v)"
proof -
  obtain x rest where xs: "xs = x # rest" using assms by (cases xs) auto
  have 1: "py_min_from f x rest \<in> set xs" using py_min_from_in[of f x rest] xs by simp
  have 2: "\<forall>v\<in>set xs. f (py_min_from f x rest) \<le> f v"
    using py_min_from_le[of f x rest] py_min_from_least[of _ rest f x] xs by auto
  show ?thesis using 1 2 xs by (simp add: py_min_def)
qed

lemma get_valid_strike_member:
  assumes "get_valid_strike vs s = Inr k"
  shows "k \<in> set vs"
proof (cases "find (\<lambda>v. real_of_int v = s) vs")
  case None
  with assms have m: "py_min (\<lambda>x. \<bar>real_of_int x - s\<bar>) vs = Inr k"
    by (simp add: get_valid_strike_def)
  then have "vs \<noteq> []" by (auto simp: py_min_def)
  from py_min_nonempty[OF this, of "\<lambda>x. \<bar>real_of_int x - s\<bar>"] m show ?thesis by auto
next
  case (Some v)
  with assms have "v = k" by (simp add: get_valid_strike_def)
  with Some show ?thesis by (auto simp: find_Some_iff)
qed

section \<open>Strike snapping\<close>

text \<open>
  Claim C9. On a non-empty universe \<^verbatim>\<open>_get_valid_strike\<close> returns a member of the universe
  whose distance to the input is the least among the members, and a strike that is
  already a member is returned unchanged. For the universe 610 to 646 the input 607
  goes to 610 and the input 628.4 goes to 628.
\<close>

theorem get_valid_strike_nearest:
  "(vs \<noteq> [] \<longrightarrow>
      (\<exists>k. get_valid_strike vs s = Inr k \<and> k \<in> set vs
          \<and> (\<forall>v\<in>set vs. \<bar>real_of_int k - s\<bar> \<le> \<bar>real_of_int v - s\<bar>)
          \<and> (\<forall>v\<in>set vs. real_of_int v = s \<longrightarrow> k = v)))
   \<and> get_valid_strike [610..646] 607 = Inr 610
   \<and> get_valid_strike [610..646] 628.4 = Inr 628"
proof (intro conjI impI)
  assume ne: "vs \<noteq> []"
  show "\<exists>k. get_valid_strike vs s = Inr k \<and> k \<in> set vs
          \<and> (\<forall>v\<in>set vs. \<bar>real_of_int k - s\<bar> \<le> \<bar>real_of_int v - s\<bar>)
          \<and> (\<forall>v\<in>set vs. real_of_int v = s \<longrightarrow> k = v)"
  proof (cases "find (\<lambda>v. real_of_int v = s) vs")
    case None
    then have no: "\<forall>v\<in>set vs. real_of_int v \<noteq> s" by (simp add: find_None_iff)
    from py_min_nonempty[OF ne, of "\<lambda>x. \<bar>real_of_int x - s\<bar>"] None no
    show ?thesis by (auto simp: get_valid_strike_def)
  next
    case (Some k)
    then have k: "k \<in> set vs" "real_of_int k = s"
      by (auto simp: find_Some_iff)
    then show ?thesis using Some by (auto simp: get_valid_strike_def)
  qed
next
  show "get_valid_strike [610..646] 607 = Inr 610" by code_simp
  show "get_valid_strike [610..646] 628.4 = Inr 628" by code_simp
qed

theorem get_valid_strike_nearest_witness:
  "[625, 630, 635] \<noteq> ([] :: int list) \<and> get_valid_strike [625, 630, 635] 628 = Inr 630
   \<and> get_valid_strike [625, 630, 635] 630 = Inr 630"
  using get_valid_strike_nearest[of "[625, 630, 635]" 628]
  by (simp add: get_valid_strike_def py_min_def)

section \<open>Switching the slingshot\<close>

text \<open>
  Claim C10. \<^verbatim>\<open>switch_slingshot(name)\<close> returns \<^verbatim>\<open>True\<close> exactly when \<open>name\<close> is a key of
  the catalog, and then the current slingshot is the catalog's entry for that name and
  nothing else of the engine changes; for any other name it returns \<^verbatim>\<open>False\<close> and the
  engine is unchanged.
\<close>

theorem switch_slingshot_catalog:
  "(fst (switch_slingshot n e) \<longleftrightarrow> n \<in> fst ` set (SLINGSHOTS (config e))) \<and>
   (\<forall>sl. map_of (SLINGSHOTS (config e)) n = Some sl \<longrightarrow>
      switch_slingshot n e = (True, e\<lparr>current_slingshot := sl\<rparr>)) \<and>
   (n \<notin> fst ` set (SLINGSHOTS (config e)) \<longrightarrow> switch_slingshot n e = (False, e))"
proof (cases "map_of (SLINGSHOTS (config e)) n")
  case None
  then have "n \<notin> fst ` set (SLINGSHOTS (config e))" by (simp add: map_of_eq_None_iff)
  with None show ?thesis by (simp add: switch_slingshot_def)
next
  case (Some sl)
  then have "(n, sl) \<in> set (SLINGSHOTS (config e))" by (rule map_of_SomeD)
  then have "n \<in> fst ` set (SLINGSHOTS (config e))" by force
  with Some show ?thesis by (simp add: switch_slingshot_def)
qed

theorem switch_slingshot_catalog_witness:
  "switch_slingshot ''basic'' scenario_engine
     = (True, scenario_engine\<lparr>current_slingshot := scenario_slingshot\<rparr>)
   \<and> switch_slingshot ''heavy'' scenario_engine = (False, scenario_engine)"
  using switch_slingshot_catalog[of "''basic''" scenario_engine]
        switch_slingshot_catalog[of "''heavy''" scenario_engine]
  by (simp add: scenario_engine_def scenario_config_def)

section \<open>The juice split\<close>

lemma double_seven_tenths: "double_round 0.7 = 6305039478318694 / 2 ^ 53"
  by code_simp

lemma double_complement: "double_round (1 - double_round 0.7) = 5404319552844596 / 2 ^ 54"
  by code_simp

lemma double_three_tenths: "double_round 0.3 = 5404319552844595 / 2 ^ 54"
  by code_simp

lemma double_shares_sum: "double_round (1 - double_round 0.7) + double_round 0.7 = 1"
  by code_simp

text \<open>
  Claim C2, as the code has it. Whenever \<^verbatim>\<open>simulate_slingshot_hit\<close> returns, a hit comes with
  the market-maker share 0.7, the double that the literal denotes, and with the retail
  share \<^verbatim>\<open>1 - 0.7\<close> as binary64 computes it: \<open>5404319552844596 / 2 ^ 54\<close>, which Python
  prints as 0.30000000000000004 and which is one unit in the last place above the double
  0.3. The two shares sum to exactly 1. A miss comes with both shares 0. The coconut that
  \<^verbatim>\<open>launch_coconut\<close> builds carries the same outcome.
\<close>

theorem juice_split_rounded:
  "(simulate_slingshot_hit env e spot strike = Inr ((hit, retail, mm), e') \<longrightarrow>
      (hit \<longrightarrow> mm = double_round 0.7 \<and> retail = double_round (1 - double_round 0.7)
               \<and> retail = 5404319552844596 / 2 ^ 54 \<and> retail + mm = 1)
      \<and> (\<not> hit \<longrightarrow> mm = 0 \<and> retail = 0))
   \<and> (launch_coconut env e = Inr (Some c, e'') \<longrightarrow>
      (c_hit c \<longrightarrow> c_mm_juice c = double_round 0.7
                 \<and> c_retail_juice c = double_round (1 - double_round 0.7)
                 \<and> c_retail_juice c = 5404319552844596 / 2 ^ 54
                 \<and> c_retail_juice c + c_mm_juice c = 1)
      \<and> (\<not> c_hit c \<longrightarrow> c_mm_juice c = 0 \<and> c_retail_juice c = 0))"
proof -
  have sim: "(h \<longrightarrow> m = double_round 0.7 \<and> r = double_round (1 - double_round 0.7)
                  \<and> r = 5404319552844596 / 2 ^ 54 \<and> r + m = 1)
             \<and> (\<not> h \<longrightarrow> m = 0 \<and> r = 0)"
    if a: "simulate_slingshot_hit env1 e1 sp st = Inr ((h, r, m), e2)" for env1 e1 sp st h r m e2
  proof -
    from a have "(h \<longrightarrow> m = double_round 0.7 \<and> r = double_round (1 - double_round 0.7))
                 \<and> (\<not> h \<longrightarrow> m = 0 \<and> r = 0)"
      by (auto simp: simulate_slingshot_hit_def err_bind_eq_Inr Let_def split: prod.splits if_splits)
    then show ?thesis using double_complement double_shares_sum by auto
  qed
  have launch: "(c_hit c \<longrightarrow> c_mm_juice c = double_round 0.7
                   \<and> c_retail_juice c = double_round (1 - double_round 0.7)
                   \<and> c_retail_juice c = 5404319552844596 / 2 ^ 54
                   \<and> c_retail_juice c + c_mm_juice c = 1)
      \<and> (\<not> c_hit c \<longrightarrow> c_mm_juice c = 0 \<and> c_retail_juice c = 0)"
    if a: "launch_coconut env e = Inr (Some c, e'')"
  proof -
    from a obtain target e1 e2 where
      s: "simulate_slingshot_hit env e1 (SPOT_PRICE (config e1)) (real_of_int target)
            = Inr ((c_hit c, c_retail_juice c, c_mm_juice c), e2)"
      by (auto simp: launch_coconut_def err_bind_eq_Inr new_coconut_def split: if_splits prod.splits)
    show ?thesis using sim[OF s] .
  qed
  show ?thesis using sim[of env e spot strike hit retail mm e'] launch by blast
qed

lemma scenario_hit:
  "(case simulate_slingshot_hit scenario_env scenario_engine 628 630 of
      Inr ((h, r, m), e') \<Rightarrow> h | Inl err \<Rightarrow> False)"
  by code_simp

lemma scenario_miss:
  "(case simulate_slingshot_hit (scenario_env\<lparr>u_hit := 1\<rparr>) scenario_engine 628 630 of
      Inr ((h, r, m), e') \<Rightarrow> \<not> h | Inl err \<Rightarrow> False)"
  by code_simp

theorem juice_split_rounded_witness:
  "(\<exists>e'. simulate_slingshot_hit scenario_env scenario_engine 628 630
            = Inr ((True, 5404319552844596 / 2 ^ 54, 6305039478318694 / 2 ^ 53), e'))
   \<and> (\<exists>e'. simulate_slingshot_hit (scenario_env\<lparr>u_hit := 1\<rparr>) scenario_engine 628 630
              = Inr ((False, 0, 0), e'))"
proof -
  obtain h r m e1 where
    1: "simulate_slingshot_hit scenario_env scenario_engine 628 630 = Inr ((h, r, m), e1)" and "h"
    using scenario_hit by (auto split: sum.splits prod.splits)
  obtain h' r' m' e2 where
    2: "simulate_slingshot_hit (scenario_env\<lparr>u_hit := 1\<rparr>) scenario_engine 628 630
          = Inr ((h', r', m'), e2)"
    and "\<not> h'"
    using scenario_miss by (auto split: sum.splits prod.splits)
  from juice_split_rounded[of scenario_env scenario_engine 628 630 h r m e1] 1 \<open>h\<close>
  have a: "m = double_round 0.7 \<and> r = 5404319552844596 / 2 ^ 54" by blast
  from juice_split_rounded[of "scenario_env\<lparr>u_hit := 1\<rparr>" scenario_engine 628 630 h' r' m' e2] 2 \<open>\<not> h'\<close>
  have b: "m' = 0 \<and> r' = 0" by blast
  show ?thesis using 1 2 a b \<open>h\<close> \<open>\<not> h'\<close> double_seven_tenths by auto
qed

text \<open>
  The claim as stated, a retail share equal to 0.3, fails on every hit: in the scenario the
  retail share returned is \<open>5404319552844596 / 2 ^ 54\<close>, which is neither the double that
  the literal \<^verbatim>\<open>0.3\<close> denotes, \<open>5404319552844595 / 2 ^ 54\<close>, nor the real number 3/10.
\<close>

theorem juice_split_counterexample:
  "map_sum id fst (simulate_slingshot_hit scenario_env scenario_engine 628 630)
     = Inr (True, 5404319552844596 / 2 ^ 54, 6305039478318694 / 2 ^ 53)
   \<and> double_round 0.3 = 5404319552844595 / 2 ^ 54
   \<and> (5404319552844596 / 2 ^ 54 :: real) \<noteq> double_round 0.3
   \<and> (5404319552844596 / 2 ^ 54 :: real) \<noteq> 3 / 10"
  by code_simp

section \<open>The flight of a coconut\<close>

text \<open>
  Claim C6, as the code has it. An update that leaves the coconut in flight (frames remain
  after the decrement and \<open>t\<close> stays below 1 after the advance) puts the coconut on the
  line between its position before the update and the target, at parameter \<open>t\<close>: the
  \<open>x\<close> of that point is multiplied by the jitter factor, the draw of
  \<^verbatim>\<open>random.uniform(1 - (1 - accuracy), 1 + (1 - accuracy))\<close>, which lies between these two
  bounds when the accuracy is at most 1, and \<open>y\<close> is lowered by the arc offset
  \<open>100 * power * t * (1 - t)\<close>. The position before the update is the launch point on
  the first update of a coconut, whose constructor stores the launch point in \<open>x\<close> and
  \<open>y\<close>.
\<close>

theorem coconut_update_in_flight:
  assumes "c_frames_remaining c - 1 > 0"
      and "c_t c + c_speed c * sl_power (c_slingshot c) < 1"
  shows "c_t (coconut_update u c) = c_t c + c_speed c * sl_power (c_slingshot c)
       \<and> c_alive (coconut_update u c) = c_alive c
       \<and> c_x (coconut_update u c)
           = ((1 - c_t (coconut_update u c)) * c_x c + c_t (coconut_update u c) * c_target_x c)
             * py_uniform (1 - (1 - sl_accuracy (c_slingshot c))) (1 + (1 - sl_accuracy (c_slingshot c))) u
       \<and> c_y (coconut_update u c)
           = ((1 - c_t (coconut_update u c)) * c_y c + c_t (coconut_update u c) * c_target_y c)
             - 100 * sl_power (c_slingshot c) * c_t (coconut_update u c) * (1 - c_t (coconut_update u c))
       \<and> (0 \<le> u \<and> u \<le> 1 \<and> sl_accuracy (c_slingshot c) \<le> 1 \<longrightarrow>
            1 - (1 - sl_accuracy (c_slingshot c))
              \<le> py_uniform (1 - (1 - sl_accuracy (c_slingshot c))) (1 + (1 - sl_accuracy (c_slingshot c))) u
            \<and> py_uniform (1 - (1 - sl_accuracy (c_slingshot c))) (1 + (1 - sl_accuracy (c_slingshot c))) u
              \<le> 1 + (1 - sl_accuracy (c_slingshot c)))
       \<and> c_x (new_coconut k x0 y0 tx ty sp h r m src sl) = x0
       \<and> c_y (new_coconut k x0 y0 tx ty sp h r m src sl) = y0"
proof -
  have rng: "a \<le> py_uniform a b u \<and> py_uniform a b u \<le> b" if "0 \<le> u" "u \<le> 1" "a \<le> b" for a b :: real
  proof -
    have "0 \<le> (b - a) * u" using that by simp
    moreover have "(b - a) * u \<le> (b - a) * 1" using that by (intro mult_left_mono) auto
    ultimately show ?thesis by (simp add: py_uniform_def)
  qed
  have "1 - (1 - sl_accuracy (c_slingshot c)) \<le> 1 + (1 - sl_accuracy (c_slingshot c))"
    if "sl_accuracy (c_slingshot c) \<le> 1" using that by simp
  then show ?thesis
    using assms rng[of "1 - (1 - sl_accuracy (c_slingshot c))" "1 + (1 - sl_accuracy (c_slingshot c))"]
    by (simp add: coconut_update_def Let_def new_coconut_def)
qed

theorem coconut_update_in_flight_witness:
  "c_frames_remaining scenario_coconut - 1 > 0
   \<and> c_t scenario_coconut + c_speed scenario_coconut * sl_power (c_slingshot scenario_coconut) < 1
   \<and> c_x (coconut_update (1 / 2) scenario_coconut) = 629
   \<and> c_y (coconut_update (1 / 2) scenario_coconut) = 251 / 25"
proof -
  have h1: "c_frames_remaining scenario_coconut - 1 > 0"
    by (simp add: scenario_coconut_def new_coconut_def scenario_slingshot_def)
  have h2: "c_t scenario_coconut + c_speed scenario_coconut * sl_power (c_slingshot scenario_coconut) < 1"
    by (simp add: scenario_coconut_def new_coconut_def scenario_slingshot_def)
  from coconut_update_in_flight[OF h1 h2, of "1 / 2"] h1 h2 show ?thesis
    by (simp add: scenario_coconut_def new_coconut_def scenario_slingshot_def py_uniform_def
                  coconut_update_def Let_def)
qed

text \<open>
  The claim as stated, with the launch point in place of the position before the update,
  fails on the second update: the coconut launched at \<open>y = 0\<close> is then at
  \<open>y = 18624 / 625\<close>, not on the arc over the line from the launch point.
\<close>

theorem coconut_update_launch_point_counterexample:
  "c_frames_remaining (coconut_update (1 / 2) (coconut_update (1 / 2) scenario_coconut)) > 0
   \<and> c_t (coconut_update (1 / 2) (coconut_update (1 / 2) scenario_coconut)) < 1
   \<and> c_y (coconut_update (1 / 2) (coconut_update (1 / 2) scenario_coconut))
       \<noteq> ((1 - c_t (coconut_update (1 / 2) (coconut_update (1 / 2) scenario_coconut))) * c_y scenario_coconut
            + c_t (coconut_update (1 / 2) (coconut_update (1 / 2) scenario_coconut)) * c_target_y scenario_coconut)
          - 100 * sl_power (c_slingshot scenario_coconut)
              * c_t (coconut_update (1 / 2) (coconut_update (1 / 2) scenario_coconut))
              * (1 - c_t (coconut_update (1 / 2) (coconut_update (1 / 2) scenario_coconut)))"
  by (simp add: scenario_coconut_def new_coconut_def scenario_slingshot_def py_uniform_def
                coconut_update_def Let_def)

section \<open>Retrieval and the reference counters\<close>

lemma relevance_pos: "0 < u \<Longrightarrow> 0 < relevance ctx u m"
  by (simp add: relevance_def add_nonneg_pos)

lemma touched_memories:
  "memories (snd (get_relevant_memories ctx limit rnd lg))
     = map (\<lambda>(i, m). touch m (relevance ctx (rnd i) m)) (enumerate 0 (memories lg))"
  by (simp add: get_relevant_memories_def Let_def split_def comp_def)

lemma set_py_take: "set (py_take n xs) \<subseteq> set xs"
  by (auto simp: py_take_def dest: in_set_takeD)

lemma selected_subset:
  "set (fst (get_relevant_memories ctx limit rnd lg))
     \<subseteq> set (memories (snd (get_relevant_memories ctx limit rnd lg)))"
proof -
  define touched where
    "touched = map (\<lambda>(m, r). (touch m r, r))
                 (map (\<lambda>(i, m). (m, relevance ctx (rnd i) m)) (enumerate 0 (memories lg)))"
  have "set (py_take limit (py_sort_desc snd (filter (\<lambda>(m, r). r > 0) touched))) \<subseteq> set touched"
    using set_py_take[of limit "py_sort_desc snd (filter (\<lambda>(m, r). r > 0) touched)"]
    by (auto simp: py_sort_desc_def)
  then have "set (map fst (py_take limit (py_sort_desc snd (filter (\<lambda>(m, r). r > 0) touched))))
               \<subseteq> set (map fst touched)"
    by auto
  then show ?thesis
    by (simp add: get_relevant_memories_def Let_def touched_def)
qed

text \<open>
  Claim C7, as the code has it. A call of \<^verbatim>\<open>get_relevant_memories\<close> keeps the number and
  the order of the stored memories; it adds exactly 1 to the reference counter of every
  memory whose relevance is positive, whatever the limit and whether or not the memory is
  among those returned, and leaves every other memory as it was. When every exploration
  draw is positive, that is every memory of the store. The memories returned are among the
  stored ones, with the counter already incremented.
\<close>

theorem retrieve_touches_relevant:
  "length (memories (snd (get_relevant_memories ctx limit rnd lg))) = length (memories lg)
   \<and> (\<forall>i < length (memories lg).
        memories (snd (get_relevant_memories ctx limit rnd lg)) ! i
          = (if relevance ctx (rnd i) (memories lg ! i) > 0
             then (memories lg ! i)\<lparr>references := references (memories lg ! i) + 1\<rparr>
             else memories lg ! i))
   \<and> ((\<forall>i < length (memories lg). 0 < rnd i) \<longrightarrow>
        (\<forall>i < length (memories lg).
           references (memories (snd (get_relevant_memories ctx limit rnd lg)) ! i)
             = references (memories lg ! i) + 1))
   \<and> set (fst (get_relevant_memories ctx limit rnd lg))
        \<subseteq> set (memories (snd (get_relevant_memories ctx limit rnd lg)))"
proof -
  have nth: "memories (snd (get_relevant_memories ctx limit rnd lg)) ! i
          = touch (memories lg ! i) (relevance ctx (rnd i) (memories lg ! i))"
    if "i < length (memories lg)" for i
    using that by (simp add: touched_memories nth_enumerate_eq)
  have len: "length (memories (snd (get_relevant_memories ctx limit rnd lg))) = length (memories lg)"
    by (simp add: touched_memories)
  have second: "\<forall>i < length (memories lg).
        memories (snd (get_relevant_memories ctx limit rnd lg)) ! i
          = (if relevance ctx (rnd i) (memories lg ! i) > 0
             then (memories lg ! i)\<lparr>references := references (memories lg ! i) + 1\<rparr>
             else memories lg ! i)"
    using nth by (simp add: touch_def)
  have third: "(\<forall>i < length (memories lg). 0 < rnd i) \<longrightarrow>
        (\<forall>i < length (memories lg).
           references (memories (snd (get_relevant_memories ctx limit rnd lg)) ! i)
             = references (memories lg ! i) + 1)"
    using nth relevance_pos[of _ ctx] by (simp add: touch_def)
  show ?thesis using len second third selected_subset[of ctx limit rnd lg] by blast
qed

theorem retrieve_touches_relevant_witness:
  "references (memories (snd (get_relevant_memories quiet_context 0 half_draws quiet_logger)) ! 0) = 1
   \<and> fst (get_relevant_memories quiet_context 0 half_draws quiet_logger) = []"
proof -
  have len: "length (memories quiet_logger) = 1" by (simp add: quiet_logger_def)
  have r0: "references (memories quiet_logger ! 0) = 0" by (simp add: quiet_logger_def)
  have pos: "\<forall>i < length (memories quiet_logger). 0 < half_draws i" by (simp add: half_draws_def)
  from retrieve_touches_relevant[of quiet_context 0 half_draws quiet_logger] pos
  have "\<forall>i < length (memories quiet_logger).
          references (memories (snd (get_relevant_memories quiet_context 0 half_draws quiet_logger)) ! i)
            = references (memories quiet_logger ! i) + 1"
    by blast
  then have "references (memories (snd (get_relevant_memories quiet_context 0 half_draws quiet_logger)) ! 0) = 1"
    using len r0 by simp
  moreover have "fst (get_relevant_memories quiet_context 0 half_draws quiet_logger) = []"
    by (simp add: get_relevant_memories_def py_take_def)
  ultimately show ?thesis by simp
qed

text \<open>
  The claim as stated, that every stored memory is incremented by every call, fails when
  the exploration draw is 0 and nothing in the memory matches the context: the relevance
  is then 0, the test \<^verbatim>\<open>relevance > 0\<close> fails and the counter stays.
\<close>

theorem retrieve_zero_draw_counterexample:
  "memories (snd (get_relevant_memories quiet_context 5 zero_draws quiet_logger)) = memories quiet_logger
   \<and> references (memories (snd (get_relevant_memories quiet_context 5 zero_draws quiet_logger)) ! 0)
       \<noteq> references (memories quiet_logger ! 0) + 1"
  by code_simp

section \<open>The hit probability\<close>

lemma monkey_defense_Inr:
  assumes "monkey_defense env e k b = Inr (b', e1)"
  shows "config e1 = config e \<and> current_slingshot e1 = current_slingshot e
         \<and> valid_strikes e1 = valid_strikes e
         \<and> b' = (if defended_by_monkey env e k then b / 2 else b)"
proof (cases "ai_monkey e")
  case False
  with assms show ?thesis by (simp add: monkey_defense_def defended_by_monkey_def)
next
  case True
  with assms obtain predictions ag where
    p: "predict_targets (monkey_profile env) (monkey_agent_of e) (get_game_state e) = Inr (predictions, ag)"
    by (auto simp: monkey_defense_def err_bind_eq_Inr)
  show ?thesis
  proof (cases "k \<in> set (map fst predictions)")
    case False
    with assms True p show ?thesis
      by (auto simp add: monkey_defense_def defended_by_monkey_def Let_def)
  next
    case in_defense: True
    with assms True p show ?thesis
      by (auto simp add: monkey_defense_def defended_by_monkey_def Let_def err_bind_eq_Inr)
  qed
qed

lemma clamp01: "max 0 (min p 1) = (if p < 0 then 0 else if p > 1 then 1 else (p::real))"
  by (auto simp: max_def min_def)

lemma final_hit_chance_spec:
  "final_hit_chance e spot k g (if d then (1 / (1 + \<bar>spot - real_of_int k\<bar>)) / 2 else 1 / (1 + \<bar>spot - real_of_int k\<bar>))
     = spec_hit_probability spot (real_of_int k) d (IMPLIED_VOL (config e)) g (current_slingshot e)"
proof -
  have om: "(if sl_option_type (current_slingshot e) = Call
             then (if spot > real_of_int k then 1.1 else 0.9)
             else (if spot < real_of_int k then 1.1 else 0.9))
          = (if (sl_option_type (current_slingshot e) = Call \<and> spot > real_of_int k)
                \<or> (sl_option_type (current_slingshot e) = Put \<and> spot < real_of_int k)
             then 1.1 else (0.9 :: real))"
    by (cases "sl_option_type (current_slingshot e)") auto
  show ?thesis
    unfolding final_hit_chance_def spec_hit_probability_def Let_def clamp01 om
    by (rule refl)
qed

lemma final_hit_chance_cong:
  "config e1 = config e \<Longrightarrow> current_slingshot e1 = current_slingshot e \<Longrightarrow>
   final_hit_chance e1 spot k g b = final_hit_chance e spot k g b"
  by (simp add: final_hit_chance_def)

text \<open>
  Claim C1. Whenever \<^verbatim>\<open>simulate_slingshot_hit\<close> returns, the strike has been snapped to a
  member \<open>k\<close> of the valid universe, the gamma value \<open>g\<close> has been read at \<open>k\<close>, and the
  hit outcome is the uniform draw being strictly less than the probability of the
  specification: the clamp to the interval from 0 to 1 of
  \<open>base * (1 - implied_vol / 100) * (1 - g / 10) * (1 / max 0.1 (dte / 30))
  * (1 + accuracy * 0.2) * (1 + power * 0.1) * option_mod\<close>, where
  \<open>base = 1 / (1 + |spot - k|)\<close> is halved when \<open>k\<close> is among the monkey agent's predicted
  defense strikes and \<open>option_mod\<close> is 1.1 for a call with the spot above the strike or a
  put with the spot below it, and 0.9 otherwise.
\<close>

theorem hit_probability:
  assumes "simulate_slingshot_hit env e spot strike0 = Inr ((hit, retail, mm), e')"
  shows "\<exists>k g. get_valid_strike (valid_strikes e) strike0 = Inr k
           \<and> k \<in> set (valid_strikes e)
           \<and> map_of (GAMMA_STRENGTH (config e)) k = Some g
           \<and> 0 \<le> spec_hit_probability spot (real_of_int k) (defended_by_monkey env e k)
                    (IMPLIED_VOL (config e)) g (current_slingshot e)
           \<and> spec_hit_probability spot (real_of_int k) (defended_by_monkey env e k)
                    (IMPLIED_VOL (config e)) g (current_slingshot e) \<le> 1
           \<and> hit = (u_hit env < spec_hit_probability spot (real_of_int k) (defended_by_monkey env e k)
                                  (IMPLIED_VOL (config e)) g (current_slingshot e))"
proof -
  from assms obtain k b' e1 g lg where
    k: "get_valid_strike (valid_strikes e) strike0 = Inr k" and
    md: "monkey_defense env e k (1 / (1 + \<bar>spot - real_of_int k\<bar>)) = Inr (b', e1)" and
    g: "dict_item (GAMMA_STRENGTH (config e1)) k = Inr g" and
    h: "hit = (u_hit env < final_hit_chance e1 spot k g b')"
    by (auto simp: simulate_slingshot_hit_def err_bind_eq_Inr Let_def split: prod.splits)
  from monkey_defense_Inr[OF md] have c: "config e1 = config e" "current_slingshot e1 = current_slingshot e"
    and b': "b' = (if defended_by_monkey env e k then (1 / (1 + \<bar>spot - real_of_int k\<bar>)) / 2 else 1 / (1 + \<bar>spot - real_of_int k\<bar>))"
    by auto
  have kin: "k \<in> set (valid_strikes e)"
    using k by (rule get_valid_strike_member)
  from g c have gm: "map_of (GAMMA_STRENGTH (config e)) k = Some g"
    by (auto simp: dict_item_def split: option.splits)
  have eq: "final_hit_chance e1 spot k g b'
      = spec_hit_probability spot (real_of_int k) (defended_by_monkey env e k) (IMPLIED_VOL (config e)) g (current_slingshot e)"
    unfolding b' final_hit_chance_cong[OF c] by (rule final_hit_chance_spec)
  have clamp_rng: "0 \<le> (if p < 0 then 0 else if p > 1 then 1 else p)
                   \<and> (if p < 0 then 0 else if p > 1 then 1 else p) \<le> 1" for p :: real
    by auto
  have rng: "0 \<le> spec_hit_probability a b d v gg sl \<and> spec_hit_probability a b d v gg sl \<le> 1" for a b d v gg sl
    unfolding spec_hit_probability_def Let_def by (rule clamp_rng)
  show ?thesis using k kin gm h eq rng by auto
qed

theorem hit_probability_witness:
  "(\<exists>retail mm e'. simulate_slingshot_hit scenario_env scenario_engine 628 630 = Inr ((True, retail, mm), e'))
   \<and> 0 < spec_hit_probability 628 630 (defended_by_monkey scenario_env scenario_engine 630)
            (IMPLIED_VOL scenario_config) (1 / 2) scenario_slingshot"
proof -
  obtain r m e1 where
    ev: "simulate_slingshot_hit scenario_env scenario_engine 628 630 = Inr ((True, r, m), e1)"
    using scenario_hit by (auto split: sum.splits prod.splits)
  from hit_probability[OF ev] obtain k g where
    k: "get_valid_strike (valid_strikes scenario_engine) 630 = Inr k" and
    g: "map_of (GAMMA_STRENGTH (config scenario_engine)) k = Some g" and
    h: "True = (u_hit scenario_env < spec_hit_probability 628 (real_of_int k)
                  (defended_by_monkey scenario_env scenario_engine k)
                  (IMPLIED_VOL (config scenario_engine)) g (current_slingshot scenario_engine))"
    by blast
  from k have k630: "k = 630" by (simp add: scenario_engine_def get_valid_strike_def)
  from g k630 have g12: "g = 1 / 2" by (simp add: scenario_engine_def scenario_config_def)
  from h k630 g12 have "0 < spec_hit_probability 628 630 (defended_by_monkey scenario_env scenario_engine 630)
            (IMPLIED_VOL scenario_config) (1 / 2) scenario_slingshot"
    by (simp add: scenario_env_def scenario_engine_def)
  with ev show ?thesis by blast
qed

section \<open>The bounded memory store\<close>

lemma score_memories_Inr:
  "score_memories clock i ms = Inr scored \<Longrightarrow>
     map fst scored = ms \<and>
     (\<forall>j < length ms. 1 + (clock (i + j) - timestamp (ms ! j)) / 86400 \<noteq> 0 \<and>
        snd (scored ! j) = importance (ms ! j) * (1 + real_of_int (references (ms ! j)) / 10)
                           * (1 / (1 + (clock (i + j) - timestamp (ms ! j)) / 86400)))"
proof (induction ms arbitrary: i scored)
  case Nil
  then show ?case by simp
next
  case (Cons m ms)
  from Cons.prems obtain s rest where
    s: "memory_score (clock i) m = Inr s" and
    r: "score_memories clock (Suc i) ms = Inr rest" and
    sc: "scored = (m, s) # rest"
    by (auto split: sum.splits)
  from s have d: "1 + (clock i - timestamp m) / 86400 \<noteq> 0"
    and sv: "s = importance m * (1 + real_of_int (references m) / 10) * (1 / (1 + (clock i - timestamp m) / 86400))"
    by (auto simp: memory_score_def Let_def split: if_splits)
  from Cons.IH[OF r] have ih1: "map fst rest = ms"
    and ih2: "\<forall>j < length ms. 1 + (clock (Suc i + j) - timestamp (ms ! j)) / 86400 \<noteq> 0 \<and>
        snd (rest ! j) = importance (ms ! j) * (1 + real_of_int (references (ms ! j)) / 10)
                           * (1 / (1 + (clock (Suc i + j) - timestamp (ms ! j)) / 86400))"
    by auto
  show ?case
  proof (intro conjI allI impI)
    show "map fst scored = m # ms" using sc ih1 by simp
  next
    fix j assume "j < length (m # ms)"
    then show "1 + (clock (i + j) - timestamp ((m # ms) ! j)) / 86400 \<noteq> 0"
      using d ih2 by (cases j) auto
  next
    fix j assume "j < length (m # ms)"
    then show "snd (scored ! j) = importance ((m # ms) ! j) * (1 + real_of_int (references ((m # ms) ! j)) / 10)
                           * (1 / (1 + (clock (i + j) - timestamp ((m # ms) ! j)) / 86400))"
      using sv sc ih2 by (cases j) auto
  qed
qed

lemma score_memories_total:
  "(\<forall>j < length ms. timestamp (ms ! j) \<le> clock (i + j)) \<Longrightarrow> \<exists>scored. score_memories clock i ms = Inr scored"
proof (induction ms arbitrary: i)
  case Nil
  then show ?case by simp
next
  case (Cons m ms)
  have "timestamp m \<le> clock i" using Cons.prems by force
  then have "1 + (clock i - timestamp m) / 86400 > 0" by (simp add: add_pos_nonneg)
  then obtain s where s: "memory_score (clock i) m = Inr s"
    by (auto simp: memory_score_def Let_def)
  have "\<forall>j < length ms. timestamp (ms ! j) \<le> clock (Suc i + j)"
    using Cons.prems by force
  from Cons.IH[OF this] obtain rest where "score_memories clock (Suc i) ms = Inr rest" by blast
  with s show ?case by simp
qed

lemma top_split:
  fixes xs :: "('a \<times> real) list"
  assumes "0 \<le> n"
  shows "\<exists>dropped. mset (py_take n (py_sort_desc snd xs)) + mset dropped = mset xs
          \<and> length (py_take n (py_sort_desc snd xs)) = min (length xs) (nat n)
          \<and> (\<forall>a\<in>set (py_take n (py_sort_desc snd xs)). \<forall>b\<in>set dropped. snd b \<le> snd a)"
proof -
  let ?s = "sort_key (\<lambda>x. - snd x) xs"
  have srt: "sorted (map (\<lambda>x. - snd x) (take (nat n) ?s @ drop (nat n) ?s))"
    by simp
  have ord: "\<forall>a\<in>set (take (nat n) ?s). \<forall>b\<in>set (drop (nat n) ?s). snd b \<le> snd a"
    using srt unfolding map_append sorted_append by auto
  have ms: "mset (take (nat n) ?s) + mset (drop (nat n) ?s) = mset xs"
    by (metis append_take_drop_id mset_append mset_sort)
  show ?thesis using assms ord ms
    by (intro exI[of _ "drop (nat n) ?s"]) (simp add: py_take_def py_sort_desc_def)
qed

text \<open>
  Claim C3. For a capacity \<open>max_memories\<close> that is not negative: when a call of
  \<^verbatim>\<open>add_memory\<close> returns, and so after every non-empty sequence of calls that return, the
  store holds at most \<open>max_memories\<close> memories. When curation runs, every memory \<open>j\<close> is
  scored \<open>importance * (1 + references / 10) * age_decay\<close> with
  \<open>age_decay = 1 / (1 + age_seconds / 86400)\<close>, the age taken at the clock reading of its
  turn; the memories kept are \<open>min (length) max_memories\<close> of the scored ones, the others
  are dropped, and no dropped memory has a higher score than a kept one. The call returns
  whenever no stored timestamp lies in the future of the clock.
\<close>

theorem add_memory_bounded:
  "(0 \<le> max_memories lg \<and> add_memory now clock c i lg = Inr lg' \<longrightarrow>
      int (length (memories lg')) \<le> max_memories lg \<and> max_memories lg' = max_memories lg)
   \<and> (0 \<le> max_memories lg \<and> calls \<noteq> [] \<and> add_memories calls lg = Inr lg'' \<longrightarrow>
      int (length (memories lg'')) \<le> max_memories lg)
   \<and> (0 \<le> max_memories lg \<and> curate_memories clock lg = Inr lg3 \<longrightarrow>
      (\<exists>scored dropped.
          map fst scored = memories lg
        \<and> (\<forall>j < length (memories lg).
             snd (scored ! j)
               = importance (memories lg ! j) * (1 + real_of_int (references (memories lg ! j)) / 10)
                 * (1 / (1 + (clock j - timestamp (memories lg ! j)) / 86400)))
        \<and> (\<exists>kept. memories lg3 = map fst kept
              \<and> mset kept + mset dropped = mset scored
              \<and> length kept = min (length (memories lg)) (nat (max_memories lg))
              \<and> (\<forall>a\<in>set kept. \<forall>b\<in>set dropped. snd b \<le> snd a))))
   \<and> ((\<forall>m\<in>set (memories lg). \<forall>j. timestamp m \<le> clock j) \<and> (\<forall>j. now \<le> clock j) \<longrightarrow>
      (\<exists>lg4. add_memory now clock c i lg = Inr lg4))"
proof -
  have cur: "\<exists>scored dropped.
          map fst scored = memories g
        \<and> (\<forall>j < length (memories g).
             snd (scored ! j)
               = importance (memories g ! j) * (1 + real_of_int (references (memories g ! j)) / 10)
                 * (1 / (1 + (clk j - timestamp (memories g ! j)) / 86400)))
        \<and> (\<exists>kept. memories g' = map fst kept
              \<and> mset kept + mset dropped = mset scored
              \<and> length kept = min (length (memories g)) (nat (max_memories g))
              \<and> (\<forall>a\<in>set kept. \<forall>b\<in>set dropped. snd b \<le> snd a))"
      and cur_max: "max_memories g' = max_memories g"
    if mx: "0 \<le> max_memories g" and c: "curate_memories clk g = Inr g'" for g g' clk
  proof -
    from c obtain scored where sc: "score_memories clk 0 (memories g) = Inr scored"
      and g': "g' = g\<lparr>memories := map fst (py_take (max_memories g) (py_sort_desc snd scored))\<rparr>"
      by (auto simp: curate_memories_def split: sum.splits)
    from score_memories_Inr[OF sc] have m: "map fst scored = memories g"
      and f: "\<forall>j < length (memories g).
             snd (scored ! j)
               = importance (memories g ! j) * (1 + real_of_int (references (memories g ! j)) / 10)
                 * (1 / (1 + (clk j - timestamp (memories g ! j)) / 86400))"
      by auto
    from m have len: "length scored = length (memories g)" by (metis length_map)
    from top_split[OF mx, of scored] obtain dropped where
      d: "mset (py_take (max_memories g) (py_sort_desc snd scored)) + mset dropped = mset scored"
         "length (py_take (max_memories g) (py_sort_desc snd scored)) = min (length scored) (nat (max_memories g))"
         "\<forall>a\<in>set (py_take (max_memories g) (py_sort_desc snd scored)). \<forall>b\<in>set dropped. snd b \<le> snd a"
      by blast
    show "\<exists>scored dropped.
          map fst scored = memories g
        \<and> (\<forall>j < length (memories g).
             snd (scored ! j)
               = importance (memories g ! j) * (1 + real_of_int (references (memories g ! j)) / 10)
                 * (1 / (1 + (clk j - timestamp (memories g ! j)) / 86400)))
        \<and> (\<exists>kept. memories g' = map fst kept
              \<and> mset kept + mset dropped = mset scored
              \<and> length kept = min (length (memories g)) (nat (max_memories g))
              \<and> (\<forall>a\<in>set kept. \<forall>b\<in>set dropped. snd b \<le> snd a))"
      apply (rule exI[of _ scored], rule exI[of _ dropped])
      using m f d g' len by auto
    show "max_memories g' = max_memories g" using g' by simp
  qed
  have one: "int (length (memories g')) \<le> max_memories g \<and> max_memories g' = max_memories g"
    if mx: "0 \<le> max_memories g" and a: "add_memory t clk s v g = Inr g'" for g g' t clk s v
  proof (cases "int (length (memories g @ [new_memory s v t])) > max_memories g")
    case True
    with a have c: "curate_memories clk (g\<lparr>memories := memories g @ [new_memory s v t]\<rparr>) = Inr g'"
      by (simp add: add_memory_def Let_def)
    from cur[OF _ c] cur_max[OF _ c] mx show ?thesis by auto
  next
    case False
    with a show ?thesis by (auto simp: add_memory_def Let_def)
  qed
  have many: "cs \<noteq> [] \<Longrightarrow> 0 \<le> max_memories g \<Longrightarrow> add_memories cs g = Inr g' \<Longrightarrow>
      int (length (memories g')) \<le> max_memories g \<and> max_memories g' = max_memories g" for cs g g'
  proof (induction cs arbitrary: g)
    case Nil
    then show ?case by simp
  next
    case (Cons call cs)
    obtain t clk s v where call: "call = (t, clk, s, v)" by (cases call) auto
    from Cons.prems(3) call obtain g1 where
      1: "add_memory t clk s v g = Inr g1" and 2: "add_memories cs g1 = Inr g'"
      by (auto simp: err_bind_eq_Inr)
    from one[OF Cons.prems(2) 1] have b1: "int (length (memories g1)) \<le> max_memories g"
      and m1: "max_memories g1 = max_memories g" by auto
    show ?case
    proof (cases "cs = []")
      case True
      with 2 b1 m1 show ?thesis by simp
    next
      case False
      from Cons.IH[OF False _ 2] m1 Cons.prems(2) show ?thesis by simp
    qed
  qed
  have tot: "\<exists>g4. add_memory now clock c i lg = Inr g4"
    if h: "\<forall>m\<in>set (memories lg). \<forall>j. timestamp m \<le> clock j" "\<forall>j. now \<le> clock j"
  proof -
    have "\<forall>j < length (memories lg @ [new_memory c i now]).
            timestamp ((memories lg @ [new_memory c i now]) ! j) \<le> clock (0 + j)"
      using h by (auto simp: nth_append new_memory_def)
    from score_memories_total[OF this] show ?thesis
      by (auto simp: add_memory_def Let_def curate_memories_def)
  qed
  show ?thesis using one[of lg now clock c i lg'] many[of calls lg lg''] cur[of lg clock lg3] tot
    by blast
qed

lemma small_logger_add:
  "add_memory 1000 steady_clock ''Missed put strike 635'' (3 / 5) small_logger = Inr small_logger_after"
  by code_simp

theorem add_memory_bounded_witness:
  "0 \<le> max_memories small_logger
   \<and> add_memory 1000 steady_clock ''Missed put strike 635'' (3 / 5) small_logger = Inr small_logger_after
   \<and> length (memories small_logger_after) = 2"
proof -
  have mx: "0 \<le> max_memories small_logger" by (simp add: small_logger_def)
  from add_memory_bounded[of small_logger 1000 steady_clock "''Missed put strike 635''" "3 / 5" small_logger_after]
       mx small_logger_add
  have "int (length (memories small_logger_after)) \<le> max_memories small_logger" by blast
  then show ?thesis using mx small_logger_add by (simp add: small_logger_def small_logger_after_def)
qed

section \<open>Target selection without a profile\<close>

lemma py_max_from_in: "py_max_from f b xs \<in> insert b (set xs)"
  by (induction xs arbitrary: b) (auto split: if_splits)

lemma py_max_from_ge: "f b \<le> f (py_max_from f b xs)"
proof (induction xs arbitrary: b)
  case Nil
  show ?case by simp
next
  case (Cons x xs)
  show ?case using Cons[of "if f b < f x then x else b"] by (auto split: if_splits)
qed

lemma py_max_from_greatest: "v \<in> set xs \<Longrightarrow> f v \<le> f (py_max_from f b xs)"
proof (induction xs arbitrary: b)
  case Nil
  then show ?case by simp
next
  case (Cons x xs)
  show ?case
  proof (cases "v = x")
    case True
    have "f (if f b < f x then x else b) \<le> f (py_max_from f (if f b < f x then x else b) xs)"
      by (rule py_max_from_ge)
    then show ?thesis using True by (auto split: if_splits)
  next
    case False
    then have "v \<in> set xs" using Cons.prems by simp
    then show ?thesis using Cons.IH by simp
  qed
qed

lemma py_max_nonempty:
  assumes "xs \<noteq> []"
  shows "\<exists>k. py_max f xs = Inr k \<and> k \<in> set xs \<and> (\<forall>v\<in>set xs. f v \<le> f k)"
proof -
  obtain x rest where xs: "xs = x # rest" using assms by (cases xs) auto
  have 1: "py_max_from f x rest \<in> set xs" using py_max_from_in[of f x rest] xs by simp
  have 2: "\<forall>v\<in>set xs. f v \<le> f (py_max_from f x rest)"
    using py_max_from_ge[of f x rest] py_max_from_greatest[of _ rest f x] xs by auto
  show ?thesis using 1 2 xs by (simp add: py_max_def)
qed

lemma fold_dict_set_map_of:
  "map_of (foldl (\<lambda>d s. dict_set d s (f s)) d0 ss) k
     = (if k \<in> set ss then Some (f k) else map_of d0 k)"
  by (induction ss arbitrary: d0) (auto simp: dict_set_def update_conv')

lemma fold_dict_set_distinct:
  "distinct (map fst d0) \<Longrightarrow> distinct (map fst (foldl (\<lambda>d s. dict_set d s (f s)) d0 ss))"
  by (induction ss arbitrary: d0) (auto simp: dict_set_def distinct_update)

lemma fold_dict_set_keys:
  "fst ` set (foldl (\<lambda>d s. dict_set d s (f s)) d0 ss) = fst ` set d0 \<union> set ss"
  by (induction ss arbitrary: d0) (auto simp: dict_set_def dom_update)

lemma retail_strike_score_default:
  "retail_strike_score ag gs retail_default_weights strike = Inr (retail_default_score ag gs strike)"
  by (simp add: retail_strike_score_def retail_default_weights_def retail_default_score_def dict_item_def Let_def)

lemma retail_strike_scores_default:
  "retail_strike_scores ag gs retail_default_weights acc ss
     = Inr (foldl (\<lambda>d s. dict_set d s (retail_default_score ag gs s)) acc ss)"
  by (induction ss arbitrary: acc) (simp_all add: retail_strike_score_default)

lemma select_target_None_unfold:
  "select_target None u k ag gs =
     (case retail_update_game_state_metrics ag gs of (gs1, ag1) \<Rightarrow>
        (let D = foldl (\<lambda>d s. dict_set d s (retail_default_score ag1 gs1 s)) [] (gs_strikes gs1)
         in if D \<noteq> [] then
              err_bind (py_max snd D) (\<lambda>best.
              err_bind (dict_item D (fst best)) (\<lambda>c.
                Inr ((fst best, min c 1), retail_record_target (fst best) ag1)))
            else err_bind (py_choice k (gs_strikes gs1))
                   (\<lambda>t. Inr ((t, min 0.5 1), retail_record_target t ag1))))"
proof -
  obtain gs1 ag1 where m: "retail_update_game_state_metrics ag gs = (gs1, ag1)"
    by (cases "retail_update_game_state_metrics ag gs") auto
  have w: "apply_profile_to_agent None ''retail'' gs1 = Inr []"
    by (simp add: apply_profile_to_agent_def)
  show ?thesis
    unfolding select_target_def m prod.case w err_bind_Inr
    by (simp add: retail_strike_scores_default Let_def err_bind_def split: sum.splits)
qed

text \<open>
  Claim C5, as the code has it. With no profile loaded and a strike set that is not empty,
  \<^verbatim>\<open>select_target\<close> does not raise: it scores every strike with the default weights and
  returns a strike of the set whose score is the greatest, with the confidence
  \<open>min score 1\<close>, and records the strike as the last target.
\<close>

theorem select_target_no_profile:
  assumes "gs_strikes gs \<noteq> []"
  shows "\<exists>target ag'.
           select_target None u k ag gs
             = Inr ((target,
                     min (retail_default_score (snd (retail_update_game_state_metrics ag gs))
                            (fst (retail_update_game_state_metrics ag gs)) target) 1), ag')
         \<and> target \<in> set (gs_strikes gs)
         \<and> (\<forall>s\<in>set (gs_strikes gs).
               retail_default_score (snd (retail_update_game_state_metrics ag gs))
                  (fst (retail_update_game_state_metrics ag gs)) s
               \<le> retail_default_score (snd (retail_update_game_state_metrics ag gs))
                  (fst (retail_update_game_state_metrics ag gs)) target)
         \<and> last_target ag' = Some target"
proof -
  obtain gs1 ag1 where m: "retail_update_game_state_metrics ag gs = (gs1, ag1)"
    by (cases "retail_update_game_state_metrics ag gs") auto
  have st: "gs_strikes gs1 = gs_strikes gs"
    using m by (auto simp: retail_update_game_state_metrics_def Let_def)
  define f where "f = retail_default_score ag1 gs1"
  define D where "D = foldl (\<lambda>d s. dict_set d s (f s)) [] (gs_strikes gs1)"
  have keys: "fst ` set D = set (gs_strikes gs)"
    unfolding D_def st using fold_dict_set_keys[of f "[]" "gs_strikes gs"] by simp
  have ne: "D \<noteq> []"
  proof
    assume "D = []"
    with keys have "set (gs_strikes gs) = {}" by simp
    with assms show False by simp
  qed
  from py_max_nonempty[OF ne, of snd] obtain best where
    b1: "py_max snd D = Inr best" and b2: "best \<in> set D" and b3: "\<forall>v\<in>set D. snd v \<le> snd best"
    by blast
  have dist: "distinct (map fst D)"
    unfolding D_def using fold_dict_set_distinct[of "[]" f "gs_strikes gs1"] by simp
  have bk: "fst best \<in> set (gs_strikes gs)" using b2 keys by force
  have "(fst best, snd best) \<in> set D" using b2 by simp
  then have m1: "map_of D (fst best) = Some (snd best)"
    using dist by (rule map_of_is_SomeI[rotated])
  have mo: "map_of D s = Some (f s)" if "s \<in> set (gs_strikes gs)" for s
    unfolding D_def st using fold_dict_set_map_of[of f "[]" "gs_strikes gs" s] that by simp
  have sb: "snd best = f (fst best)" using m1 mo[OF bk] by simp
  have it: "dict_item D (fst best) = Inr (f (fst best))" using mo[OF bk] by (simp add: dict_item_def)
  have mx: "\<forall>s\<in>set (gs_strikes gs). f s \<le> f (fst best)"
  proof
    fix s assume s: "s \<in> set (gs_strikes gs)"
    have "(s, f s) \<in> set D" using mo[OF s] by (rule map_of_SomeD)
    with b3 have "snd (s, f s) \<le> snd best" by blast
    then show "f s \<le> f (fst best)" using sb by simp
  qed
  have sel: "select_target None u k ag gs
          = Inr ((fst best, min (f (fst best)) 1), retail_record_target (fst best) ag1)"
    unfolding select_target_None_unfold m prod.case Let_def f_def[symmetric]
    using ne[unfolded D_def] b1[unfolded D_def] it[unfolded D_def] by simp
  have lt: "last_target (retail_record_target (fst best) ag1) = Some (fst best)"
    by (simp add: retail_record_target_def)
  show ?thesis
    unfolding m fst_conv snd_conv f_def[symmetric]
    using sel bk mx lt by blast
qed

lemma scenario_select:
  "select_target None (1 / 2) 0 (retail_agent_of scenario_engine) (get_game_state scenario_engine)
     = Inr ((630, 18 / 35), scenario_retail_after)"
  by code_simp

theorem select_target_no_profile_witness:
  "gs_strikes (get_game_state scenario_engine) \<noteq> []
   \<and> select_target None (1 / 2) 0 (retail_agent_of scenario_engine) (get_game_state scenario_engine)
         = Inr ((630, 18 / 35), scenario_retail_after)
   \<and> last_target scenario_retail_after = Some 630"
proof -
  have ne: "gs_strikes (get_game_state scenario_engine) \<noteq> []"
    by (simp add: get_game_state_def scenario_engine_def)
  from select_target_no_profile[OF ne, of "1 / 2" 0 "retail_agent_of scenario_engine"]
  obtain target ag' where
    "select_target None (1 / 2) 0 (retail_agent_of scenario_engine) (get_game_state scenario_engine)
       = Inr ((target,
               min (retail_default_score (snd (retail_update_game_state_metrics (retail_agent_of scenario_engine) (get_game_state scenario_engine)))
                      (fst (retail_update_game_state_metrics (retail_agent_of scenario_engine) (get_game_state scenario_engine))) target) 1), ag')"
    and lt: "last_target ag' = Some target"
    by blast
  with scenario_select have "target = 630" "ag' = scenario_retail_after" by simp_all
  with lt ne scenario_select show ?thesis by simp
qed

text \<open>
  The claim as stated fails twice. On an empty strike set the fallback branch calls
  \<^verbatim>\<open>random.choice\<close> on the empty list, which raises \<^verbatim>\<open>IndexError\<close>. With no profile and
  the strikes of the scenario the confidence returned is the score 18/35, not 0.5.
\<close>

theorem select_target_counterexample:
  "select_target None (1 / 2) 0 (retail_agent_of scenario_engine) empty_strikes_state = Inl IndexError
   \<and> select_target None (1 / 2) 0 (retail_agent_of scenario_engine) (get_game_state scenario_engine)
       = Inr ((630, 18 / 35), scenario_retail_after)
   \<and> (18 / 35 :: real) \<noteq> 1 / 2"
  by code_simp

section \<open>The frame counter\<close>

lemma same_board_refl [simp]: "same_board e e"
  by (simp add: same_board_def)

lemma same_board_trans: "same_board a b \<Longrightarrow> same_board b c \<Longrightarrow> same_board a c"
  by (simp add: same_board_def)

lemma monkey_defense_board:
  assumes "monkey_defense env e k b = Inr (b', e1)"
  shows "same_board e e1"
proof (cases "ai_monkey e")
  case False
  with assms show ?thesis by (simp add: monkey_defense_def)
next
  case True
  with assms obtain predictions ag where
    p: "predict_targets (monkey_profile env) (monkey_agent_of e) (get_game_state e) = Inr (predictions, ag)"
    by (auto simp: monkey_defense_def err_bind_eq_Inr)
  show ?thesis
  proof (cases "k \<in> set (map fst predictions)")
    case False
    with assms True p show ?thesis
      by (auto simp add: monkey_defense_def Let_def same_board_def)
  next
    case in_defense: True
    with assms True p show ?thesis
      by (auto simp add: monkey_defense_def Let_def err_bind_eq_Inr same_board_def)
  qed
qed

lemma simulate_board:
  assumes "simulate_slingshot_hit env e spot strike0 = Inr (res, e')"
  shows "same_board e e'"
proof -
  from assms obtain k b' e1 g lg where
    md: "monkey_defense env e k (1 / (1 + \<bar>spot - real_of_int k\<bar>)) = Inr (b', e1)" and
    e': "e' = e1\<lparr>retail_agent_of := record_hit (fst res) (retail_agent_of e1), retail_memory := lg\<rparr>"
    by (auto simp: simulate_slingshot_hit_def err_bind_eq_Inr Let_def split: prod.splits)
  from monkey_defense_board[OF md] e' show ?thesis by (simp add: same_board_def)
qed

lemma choose_target_board:
  assumes "choose_target env e = Inr (t, e1)"
  shows "same_board e e1"
  using assms
  by (auto simp: choose_target_def err_bind_eq_Inr same_board_def split: if_splits list.splits prod.splits)

lemma launch_coconut_capped:
  "frame e \<ge> TRIALS (config e) \<Longrightarrow> launch_coconut env e = Inr (None, e)"
  by (simp add: launch_coconut_def)

lemma launch_coconut_board:
  assumes "launch_coconut env e = Inr (r, e')"
  shows "same_board e e'
         \<and> (frame e < TRIALS (config e) \<longrightarrow>
              (\<exists>c. r = Some c \<and> c_alive c \<and> c_slingshot c = current_slingshot e
                   \<and> c_frames_remaining c = sl_dte (current_slingshot e) * 60 \<and> c_t c = 0))
         \<and> (frame e \<ge> TRIALS (config e) \<longrightarrow> r = None)"
proof (cases "frame e \<ge> TRIALS (config e)")
  case True
  with assms show ?thesis by (simp add: launch_coconut_def)
next
  case False
  with assms obtain target e1 res e2 pos where
    ct: "choose_target env e = Inr (target, e1)" and
    sim: "simulate_slingshot_hit env e1 (SPOT_PRICE (config e1)) (real_of_int target) = Inr (res, e2)" and
    r: "r = Some (new_coconut target (real_of_int (WIDTH (config e2) div 2)) 0
                       (fst pos + 10) (real_of_int (snd pos))
                       (py_uniform 0.01 0.03 (u_speed env)) (fst res) (fst (snd res)) (snd (snd res))
                       (if ai_retail e2 then ''retail'' else ''random'')
                       (current_slingshot e2))" and
    e': "e' = e2"
    by (auto simp: launch_coconut_def err_bind_eq_Inr split: prod.splits)
  from choose_target_board[OF ct] simulate_board[OF sim] have sb: "same_board e e2"
    by (rule same_board_trans)
  show ?thesis using False r e' sb by (auto simp: new_coconut_def same_board_def)
qed

lemma update_game_state_frame:
  assumes "update_game_state e s h r m = Inr e'"
  shows "frame e' = frame e \<and> config e' = config e \<and> paused e' = paused e
         \<and> valid_strikes e' = valid_strikes e \<and> coconuts e' = coconuts e"
  using assms
  by (auto simp: update_game_state_def err_bind_eq_Inr split: if_splits)

lemma update_coconuts_frame:
  "update_coconuts uj i cs e = Inr e' \<Longrightarrow>
     frame e' = frame e \<and> config e' = config e \<and> paused e' = paused e
     \<and> valid_strikes e' = valid_strikes e
     \<and> coconuts e' = coconuts e @ filter c_alive (map (\<lambda>(j, c). coconut_update (uj j) c) (enumerate i cs))"
proof (induction cs arbitrary: i e)
  case Nil
  then show ?case by simp
next
  case (Cons c cs)
  show ?case
  proof (cases "c_alive (coconut_update (uj i) c)")
    case True
    with Cons.prems have
      "update_coconuts uj (Suc i) cs (e\<lparr>coconuts := coconuts e @ [coconut_update (uj i) c]\<rparr>) = Inr e'"
      by (simp add: Let_def)
    from Cons.IH[OF this] True show ?thesis by simp
  next
    case False
    with Cons.prems obtain e1 where
      1: "update_game_state e (real_of_int (c_strike (coconut_update (uj i) c)))
            (c_hit (coconut_update (uj i) c)) (c_retail_juice (coconut_update (uj i) c))
            (c_mm_juice (coconut_update (uj i) c)) = Inr e1" and
      2: "update_coconuts uj (Suc i) cs e1 = Inr e'"
      by (auto simp: Let_def err_bind_eq_Inr)
    from Cons.IH[OF 2] update_game_state_frame[OF 1] False show ?thesis by simp
  qed
qed

lemma update_frame:
  assumes "update env e = Inr e'"
  shows "config e' = config e \<and> paused e' = paused e \<and> valid_strikes e' = valid_strikes e
         \<and> (paused e \<or> frame e \<ge> TRIALS (config e) \<longrightarrow> frame e' = frame e)
         \<and> (\<not> paused e \<and> frame e < TRIALS (config e) \<longrightarrow> frame e' = frame e + 1)"
proof (cases "paused e")
  case True
  with assms show ?thesis by (simp add: update_def)
next
  case False
  with assms obtain launched e1 where
    l: "launch_coconut env e = Inr (launched, e1)" and
    u: "update_coconuts (u_jitter env) 0
          (coconuts (case launched of
                       Some coconut \<Rightarrow> e1\<lparr>coconuts := coconuts e1 @ [coconut], frame := frame e1 + 1\<rparr>
                     | None \<Rightarrow> e1))
          ((case launched of
              Some coconut \<Rightarrow> e1\<lparr>coconuts := coconuts e1 @ [coconut], frame := frame e1 + 1\<rparr>
            | None \<Rightarrow> e1)\<lparr>coconuts := []\<rparr>) = Inr e'"
    by (auto simp: update_def err_bind_eq_Inr Let_def)
  from launch_coconut_board[OF l] have sb: "same_board e e1"
    and some: "frame e < TRIALS (config e) \<longrightarrow> launched \<noteq> None"
    and none: "frame e \<ge> TRIALS (config e) \<longrightarrow> launched = None"
    by auto
  from update_coconuts_frame[OF u] sb some none False show ?thesis
    by (cases launched) (auto simp: same_board_def)
qed

lemma scenario_first_update: "update scenario_env scenario_engine = Inr scenario_after_one"
  by code_simp

lemma scenario_second_update: "update scenario_env scenario_after_one = Inr scenario_after_two"
  by code_simp

lemma scenario_init: "init_engine scenario_config [] [] = Inr scenario_engine"
  by code_simp

lemma init_engine_start:
  assumes "init_engine cfg rl ml = Inr e0"
  shows "frame e0 = 0 \<and> config e0 = cfg \<and> coconuts e0 = [] \<and> \<not> paused e0
         \<and> valid_strikes e0 = sort (STRIKES cfg)
         \<and> tree_hits e0 = dict_from_keys (sort (STRIKES cfg)) (\<lambda>s. 0)
         \<and> retail_juice e0 = dict_from_keys (sort (STRIKES cfg)) (\<lambda>s. 0)
         \<and> mm_juice e0 = dict_from_keys (sort (STRIKES cfg)) (\<lambda>s. 0)"
  using assms by (auto simp: init_engine_def err_bind_eq_Inr Let_def)

lemma apply_op_frame:
  assumes "0 \<le> frame e" "frame e \<le> TRIALS (config e)" "apply_op op e = Inr e'"
  shows "0 \<le> frame e' \<and> frame e' \<le> TRIALS (config e') \<and> TRIALS (config e') = TRIALS (config e)"
proof (cases op)
  case (Update env)
  with assms have u: "update env e = Inr e'" by simp
  from update_frame[OF u] assms(1,2) show ?thesis by (cases "paused e \<or> frame e \<ge> TRIALS (config e)") auto
next
  case TogglePause
  with assms show ?thesis by (auto simp: toggle_pause_def)
next
  case (ToggleAI a)
  with assms show ?thesis by (auto simp: toggle_ai_def)
next
  case Reset
  with assms show ?thesis by (auto simp: reset_def)
next
  case (SwitchSlingshot n)
  with assms show ?thesis by (auto simp: switch_slingshot_def split: option.splits)
next
  case (RefreshMarket p v)
  with assms show ?thesis by auto
qed

lemma run_ops_frame:
  "0 \<le> frame e \<Longrightarrow> frame e \<le> TRIALS (config e) \<Longrightarrow> run_ops ops e = Inr e' \<Longrightarrow>
     0 \<le> frame e' \<and> frame e' \<le> TRIALS (config e') \<and> TRIALS (config e') = TRIALS (config e)"
proof (induction ops arbitrary: e)
  case Nil
  then show ?case by simp
next
  case (Cons op ops)
  from Cons.prems(3) obtain e1 where 1: "apply_op op e = Inr e1" and 2: "run_ops ops e1 = Inr e'"
    by (auto simp: err_bind_eq_Inr)
  from apply_op_frame[OF Cons.prems(1,2) 1] have a: "0 \<le> frame e1" "frame e1 \<le> TRIALS (config e1)"
    "TRIALS (config e1) = TRIALS (config e)" by auto
  from Cons.IH[OF a(1,2) 2] a(3) show ?case by simp
qed

lemma updates_capped:
  "frame e \<ge> TRIALS (config e) \<Longrightarrow> updates envs e = Inr e' \<Longrightarrow>
     frame e' = frame e \<and> config e' = config e \<and> paused e' = paused e"
proof (induction envs arbitrary: e)
  case Nil
  then show ?case by simp
next
  case (Cons env envs)
  from Cons.prems(2) obtain e1 where 1: "update env e = Inr e1" and 2: "updates envs e1 = Inr e'"
    by (auto simp: err_bind_eq_Inr)
  from update_frame[OF 1] Cons.prems(1) have a: "frame e1 = frame e" "config e1 = config e" "paused e1 = paused e"
    by auto
  from Cons.IH[OF _ 2] a Cons.prems(1) show ?case by simp
qed

text \<open>
  Claim C8. For a trial cap \<open>TRIALS\<close> that is not negative, every state that an episode
  reaches from a constructed engine has \<open>0 \<le> frame \<le> TRIALS\<close>. Once \<open>frame\<close> has reached
  \<open>TRIALS\<close>, \<^verbatim>\<open>launch_coconut\<close> returns \<^verbatim>\<open>None\<close> and leaves the engine as it is, and no
  sequence of updates changes \<open>frame\<close> again. An \<^verbatim>\<open>update\<close> that launches a coconut adds
  exactly 1 to \<open>frame\<close>; one that is paused or launches none leaves \<open>frame\<close> as it is.
\<close>

theorem frame_bounded:
  "(0 \<le> TRIALS cfg \<and> init_engine cfg rl ml = Inr e0 \<and> run_ops ops e0 = Inr e \<longrightarrow>
      0 \<le> frame e \<and> frame e \<le> TRIALS (config e) \<and> TRIALS (config e) = TRIALS cfg)
   \<and> (frame s \<ge> TRIALS (config s) \<longrightarrow> launch_coconut env s = Inr (None, s))
   \<and> (frame s = TRIALS (config s) \<and> updates envs s = Inr s' \<longrightarrow> frame s' = TRIALS (config s'))
   \<and> (update env s = Inr s'' \<longrightarrow>
        (\<not> paused s \<and> (\<exists>c s1. launch_coconut env s = Inr (Some c, s1)) \<longrightarrow> frame s'' = frame s + 1)
        \<and> (paused s \<or> (\<exists>s1. launch_coconut env s = Inr (None, s1)) \<longrightarrow> frame s'' = frame s))"
proof -
  have a: "0 \<le> frame e \<and> frame e \<le> TRIALS (config e) \<and> TRIALS (config e) = TRIALS cfg"
    if "0 \<le> TRIALS cfg" "init_engine cfg rl ml = Inr e0" "run_ops ops e0 = Inr e"
  proof -
    from init_engine_start[OF that(2)] have "frame e0 = 0" "config e0 = cfg" by auto
    with run_ops_frame[of e0 ops e] that show ?thesis by simp
  qed
  have b: "launch_coconut env s = Inr (None, s)" if "frame s \<ge> TRIALS (config s)"
    using that by (rule launch_coconut_capped)
  have c: "frame s' = TRIALS (config s')" if "frame s = TRIALS (config s)" "updates envs s = Inr s'"
    using updates_capped[of s envs s'] that by simp
  have d1: "frame s'' = frame s + 1"
    if u: "update env s = Inr s''" and np: "\<not> paused s" and l: "\<exists>c s1. launch_coconut env s = Inr (Some c, s1)"
  proof -
    from l obtain c s1 where l1: "launch_coconut env s = Inr (Some c, s1)" by blast
    from launch_coconut_board[OF l1] have "frame s < TRIALS (config s)" by (cases "frame s < TRIALS (config s)") auto
    with update_frame[OF u] np show ?thesis by simp
  qed
  have d2: "frame s'' = frame s"
    if u: "update env s = Inr s''" and l: "paused s \<or> (\<exists>s1. launch_coconut env s = Inr (None, s1))"
  proof (cases "paused s")
    case True
    with update_frame[OF u] show ?thesis by simp
  next
    case False
    with l obtain s1 where l1: "launch_coconut env s = Inr (None, s1)" by blast
    from launch_coconut_board[OF l1] have "frame s \<ge> TRIALS (config s)" by (cases "frame s < TRIALS (config s)") auto
    with update_frame[OF u] show ?thesis by simp
  qed
  show ?thesis using a b c d1 d2 by blast
qed

lemma scenario_run:
  "run_ops [Update scenario_env, TogglePause, TogglePause, Update scenario_env] scenario_engine
     = Inr scenario_after_two"
proof -
  have "toggle_pause (toggle_pause scenario_after_one) = scenario_after_one"
    by (simp add: toggle_pause_def)
  then show ?thesis
    by (simp add: scenario_first_update scenario_second_update)
qed

theorem frame_bounded_witness:
  "0 \<le> TRIALS scenario_config
   \<and> init_engine scenario_config [] [] = Inr scenario_engine
   \<and> run_ops [Update scenario_env, TogglePause, TogglePause, Update scenario_env] scenario_engine
        = Inr scenario_after_two
   \<and> frame scenario_after_two = 1 \<and> TRIALS (config scenario_after_two) = 1
   \<and> frame scenario_after_one = frame scenario_engine + 1
   \<and> launch_coconut scenario_env scenario_after_one = Inr (None, scenario_after_one)"
proof -
  have t: "0 \<le> TRIALS scenario_config" by (simp add: scenario_config_def)
  have f2: "frame scenario_after_two = 1"
    by (simp add: scenario_after_two_def scenario_after_one_def)
  have f1: "frame scenario_after_one = frame scenario_engine + 1"
    by (simp add: scenario_after_one_def scenario_engine_def)
  have c1: "frame scenario_after_one \<ge> TRIALS (config scenario_after_one)"
    by (simp add: scenario_after_one_def scenario_engine_def scenario_config_def)
  from frame_bounded[of scenario_config "[]" "[]" scenario_engine
         "[Update scenario_env, TogglePause, TogglePause, Update scenario_env]" scenario_after_two
         scenario_after_one scenario_env "[]" scenario_after_one scenario_after_two]
       t scenario_init scenario_run c1
  have "TRIALS (config scenario_after_two) = TRIALS scenario_config
        \<and> launch_coconut scenario_env scenario_after_one = Inr (None, scenario_after_one)"
    by blast
  then show ?thesis using t scenario_init scenario_run f1 f2 by (simp add: scenario_config_def)
qed

section \<open>The end-to-end scenario\<close>

lemma coconut_update_frames:
  "c_frames_remaining (coconut_update u c) = c_frames_remaining c - 1
   \<and> (c_alive (coconut_update u c) \<longrightarrow> 1 \<le> c_frames_remaining (coconut_update u c))"
  by (simp add: coconut_update_def Let_def)

lemma update_capped_coconuts:
  assumes "\<not> paused e" "frame e \<ge> TRIALS (config e)" "update env e = Inr e'"
  shows "coconuts e' = filter c_alive (map (\<lambda>(j, c). coconut_update (u_jitter env j) c)
                                         (enumerate 0 (coconuts e)))"
proof -
  have l: "launch_coconut env e = Inr (None, e)" using assms(2) by (rule launch_coconut_capped)
  with assms have "update_coconuts (u_jitter env) 0 (coconuts e) (e\<lparr>coconuts := []\<rparr>) = Inr e'"
    by (simp add: update_def)
  from update_coconuts_frame[OF this] show ?thesis by simp
qed

lemma updates_drain:
  "\<not> paused e \<Longrightarrow> frame e \<ge> TRIALS (config e) \<Longrightarrow>
   (\<forall>c\<in>set (coconuts e). 1 \<le> c_frames_remaining c \<and> c_frames_remaining c \<le> int (length envs)) \<Longrightarrow>
   updates envs e = Inr e' \<Longrightarrow> coconuts e' = []"
proof (induction envs arbitrary: e)
  case Nil
  have none: "c \<notin> set (coconuts e)" for c
  proof
    assume "c \<in> set (coconuts e)"
    with Nil.prems(3) have "1 \<le> c_frames_remaining c" "c_frames_remaining c \<le> 0" by force+
    then show False by linarith
  qed
  have "coconuts e = []"
    using none by (metis list.set_intros(1) neq_Nil_conv)
  with Nil.prems(4) show ?case by simp
next
  case (Cons env envs)
  from Cons.prems(4) obtain e1 where 1: "update env e = Inr e1" and 2: "updates envs e1 = Inr e'"
    by (auto simp: err_bind_eq_Inr)
  from update_frame[OF 1] Cons.prems(1,2) have a: "\<not> paused e1" "frame e1 \<ge> TRIALS (config e1)"
    by auto
  have cs: "coconuts e1 = filter c_alive (map (\<lambda>(j, c). coconut_update (u_jitter env j) c)
                                         (enumerate 0 (coconuts e)))"
    using update_capped_coconuts[OF Cons.prems(1,2) 1] .
  have b: "\<forall>c\<in>set (coconuts e1). 1 \<le> c_frames_remaining c \<and> c_frames_remaining c \<le> int (length envs)"
  proof
    fix c' assume "c' \<in> set (coconuts e1)"
    with cs obtain j c where jc: "(j, c) \<in> set (enumerate 0 (coconuts e))"
      and c': "c' = coconut_update (u_jitter env j) c" and al: "c_alive c'"
      by auto
    from jc have "c \<in> set (coconuts e)" by (auto simp: in_set_enumerate_eq)
    with Cons.prems(3) have "c_frames_remaining c \<le> int (length (env # envs))" by blast
    with coconut_update_frames[of "u_jitter env j" c] c' al
    show "1 \<le> c_frames_remaining c' \<and> c_frames_remaining c' \<le> int (length envs)" by simp
  qed
  from Cons.IH[OF a b 2] show ?case .
qed

lemma update_game_state_effect:
  assumes "update_game_state e s h r m = Inr e'"
  shows "(\<not> h \<longrightarrow> e' = e)
       \<and> (h \<longrightarrow> (\<exists>k\<in>set (valid_strikes e). strike_changed e e' k \<and> (\<forall>s'. s' \<noteq> k \<longrightarrow> \<not> strike_changed e e' s')))"
proof (cases h)
  case False
  with assms show ?thesis by (auto simp: update_game_state_def err_bind_eq_Inr)
next
  case True
  with assms obtain k hh rr mm where
    k: "get_valid_strike (valid_strikes e) s = Inr k" and
    hh: "dict_item (tree_hits e) k = Inr hh" and
    e': "e' = e\<lparr>tree_hits := dict_set (tree_hits e) k (hh + 1),
                retail_juice := dict_set (retail_juice e) k (rr + r),
                mm_juice := dict_set (mm_juice e) k (mm + m)\<rparr>"
    by (auto simp: update_game_state_def err_bind_eq_Inr)
  from hh have h0: "map_of (tree_hits e) k = Some hh"
    by (auto simp: dict_item_def split: option.splits)
  have kin: "k \<in> set (valid_strikes e)" using k by (rule get_valid_strike_member)
  have ch: "strike_changed e e' k" using h0 e' by (simp add: strike_changed_def dict_set_def update_conv')
  have un: "\<not> strike_changed e e' s'" if "s' \<noteq> k" for s'
    using that e' by (simp add: strike_changed_def dict_set_def update_conv')
  show ?thesis using True kin ch un by blast
qed

lemma strike_changed_board:
  "same_board e e1 \<Longrightarrow> tree_hits e2 = tree_hits e1 \<Longrightarrow> retail_juice e2 = retail_juice e1 \<Longrightarrow>
   mm_juice e2 = mm_juice e1 \<Longrightarrow> strike_changed e e' s = strike_changed e2 e' s"
  by (simp add: same_board_def strike_changed_def)

lemma first_update:
  assumes np: "\<not> paused e" and fr: "frame e < TRIALS (config e)" and em: "coconuts e = []"
      and u: "update env e = Inr e'"
  shows "\<exists>c s1. launch_coconut env e = Inr (Some c, s1)
          \<and> ((coconuts e' = [coconut_update (u_jitter env 0) c] \<and> c_alive (coconut_update (u_jitter env 0) c)
                \<and> (\<forall>s. \<not> strike_changed e e' s))
              \<or> (coconuts e' = [] \<and> \<not> c_hit c \<and> (\<forall>s. \<not> strike_changed e e' s))
              \<or> (coconuts e' = [] \<and> c_hit c
                  \<and> (\<exists>k\<in>set (valid_strikes e). strike_changed e e' k
                        \<and> (\<forall>s. s \<noteq> k \<longrightarrow> \<not> strike_changed e e' s))))"
proof -
  from u np obtain launched s1 where l: "launch_coconut env e = Inr (launched, s1)"
    by (auto simp: update_def err_bind_eq_Inr)
  from launch_coconut_board[OF l] fr obtain c where sb: "same_board e s1" and lc: "launched = Some c"
    by auto
  define s2 where "s2 = s1\<lparr>frame := frame s1 + 1, coconuts := []\<rparr>"
  have s1c: "coconuts s1 = []" using sb em by (simp add: same_board_def)
  from u np l lc s1c have uc: "update_coconuts (u_jitter env) 0 [c] s2 = Inr e'"
    by (simp add: update_def s2_def)
  have vs: "valid_strikes s2 = valid_strikes e" using sb by (simp add: s2_def same_board_def)
  have sc: "strike_changed e e' s = strike_changed s2 e' s" for s
    using sb by (simp add: s2_def same_board_def strike_changed_def)
  have hitc: "c_hit (coconut_update (u_jitter env 0) c) = c_hit c"
    by (simp add: coconut_update_def Let_def)
  show ?thesis
  proof (cases "c_alive (coconut_update (u_jitter env 0) c)")
    case True
    with uc have "e' = s2\<lparr>coconuts := [coconut_update (u_jitter env 0) c]\<rparr>"
      by (simp add: Let_def s2_def)
    then have "coconuts e' = [coconut_update (u_jitter env 0) c]" "\<forall>s. \<not> strike_changed s2 e' s"
      by (simp_all add: strike_changed_def)
    with True l lc sc show ?thesis by blast
  next
    case False
    with uc have ug: "update_game_state s2 (real_of_int (c_strike (coconut_update (u_jitter env 0) c)))
            (c_hit c) (c_retail_juice (coconut_update (u_jitter env 0) c))
            (c_mm_juice (coconut_update (u_jitter env 0) c)) = Inr e'"
      by (auto simp: Let_def err_bind_eq_Inr hitc)
    from update_game_state_frame[OF ug] have ce: "coconuts e' = []" by (simp add: s2_def)
    show ?thesis
    proof (cases "c_hit c")
      case True
      with update_game_state_effect[OF ug] vs sc
      have "\<exists>k\<in>set (valid_strikes e). strike_changed e e' k \<and> (\<forall>s. s \<noteq> k \<longrightarrow> \<not> strike_changed e e' s)"
        by auto
      with True ce l lc show ?thesis by blast
    next
      case nohit: False
      with update_game_state_effect[OF ug] have "e' = s2" by simp
      then have "\<forall>s. \<not> strike_changed s2 e' s" by (simp add: strike_changed_def)
      with nohit ce l lc sc show ?thesis by blast
    qed
  qed
qed

text \<open>
  Claim C4, as the code has it. In the scenario (strikes 625, 630 and 635, spot 628, the
  same gamma at every strike, one trial), one \<^verbatim>\<open>update\<close> of the constructed engine that
  returns leaves \<open>frame = 1\<close> and has launched one coconut. The aggregate maps change only
  when that coconut ends its flight in the same update and is a hit, and then at exactly
  one strike of the universe; a coconut still in flight, or a miss, changes no strike.
  A second \<^verbatim>\<open>update\<close> launches no coconut, keeps \<open>frame = 1\<close> and advances every coconut in
  flight by one \<^verbatim>\<open>Coconut.update\<close>, keeping those still alive. After as many further
  updates as the largest \<open>frames_remaining\<close> in flight, no coconut is left.
\<close>

theorem scenario_two_updates:
  assumes init: "init_engine cfg rl ml = Inr e0"
      and strikes: "sort (STRIKES cfg) = [625, 630, 635]"
      and spot: "SPOT_PRICE cfg = 628"
      and gam: "\<forall>s\<in>set (STRIKES cfg). map_of (GAMMA_STRENGTH cfg) s = Some g"
      and tr: "TRIALS cfg = 1"
      and u1: "update env1 e0 = Inr e1"
  shows "frame e1 = 1
     \<and> (\<exists>c s1. launch_coconut env1 e0 = Inr (Some c, s1)
          \<and> ((coconuts e1 = [coconut_update (u_jitter env1 0) c] \<and> c_alive (coconut_update (u_jitter env1 0) c)
                \<and> (\<forall>s. \<not> strike_changed e0 e1 s))
              \<or> (coconuts e1 = [] \<and> \<not> c_hit c \<and> (\<forall>s. \<not> strike_changed e0 e1 s))
              \<or> (coconuts e1 = [] \<and> c_hit c
                  \<and> (\<exists>k\<in>{625, 630, 635}. strike_changed e0 e1 k
                        \<and> (\<forall>s. s \<noteq> k \<longrightarrow> \<not> strike_changed e0 e1 s)))))
     \<and> (\<forall>env2 e2. update env2 e1 = Inr e2 \<longrightarrow>
            launch_coconut env2 e1 = Inr (None, e1) \<and> frame e2 = 1
          \<and> coconuts e2 = filter c_alive (map (\<lambda>(j, c). coconut_update (u_jitter env2 j) c)
                                              (enumerate 0 (coconuts e1))))
     \<and> (\<forall>envs e3. updates envs e1 = Inr e3
            \<and> (\<forall>c\<in>set (coconuts e1). c_frames_remaining c \<le> int (length envs)) \<longrightarrow>
            coconuts e3 = [] \<and> frame e3 = 1)"
proof -
  from init_engine_start[OF init] have s0: "frame e0 = 0" "config e0 = cfg" "coconuts e0 = []" "\<not> paused e0"
    "valid_strikes e0 = sort (STRIKES cfg)" by auto
  have fr0: "frame e0 < TRIALS (config e0)" using s0 tr by simp
  from update_frame[OF u1] s0 tr have f1: "frame e1 = 1" and c1: "config e1 = cfg" and p1: "\<not> paused e1"
    by auto
  have cap: "frame e1 \<ge> TRIALS (config e1)" using f1 c1 tr by simp
  have vs: "set (valid_strikes e0) = {625, 630, 635}" using s0(5) strikes by simp
  from first_update[OF s0(4) fr0 s0(3) u1] vs
  have part2: "\<exists>c s1. launch_coconut env1 e0 = Inr (Some c, s1)
          \<and> ((coconuts e1 = [coconut_update (u_jitter env1 0) c] \<and> c_alive (coconut_update (u_jitter env1 0) c)
                \<and> (\<forall>s. \<not> strike_changed e0 e1 s))
              \<or> (coconuts e1 = [] \<and> \<not> c_hit c \<and> (\<forall>s. \<not> strike_changed e0 e1 s))
              \<or> (coconuts e1 = [] \<and> c_hit c
                  \<and> (\<exists>k\<in>{625, 630, 635}. strike_changed e0 e1 k
                        \<and> (\<forall>s. s \<noteq> k \<longrightarrow> \<not> strike_changed e0 e1 s))))"
    by simp
  have part3: "launch_coconut env2 e1 = Inr (None, e1) \<and> frame e2 = 1
          \<and> coconuts e2 = filter c_alive (map (\<lambda>(j, c). coconut_update (u_jitter env2 j) c)
                                              (enumerate 0 (coconuts e1)))"
    if u2: "update env2 e1 = Inr e2" for env2 e2
    using launch_coconut_capped[OF cap, of env2] update_frame[OF u2] cap f1
          update_capped_coconuts[OF p1 cap u2] by simp
  have alive1: "\<forall>c\<in>set (coconuts e1). 1 \<le> c_frames_remaining c"
  proof -
    from part2 obtain c where
      "coconuts e1 = [coconut_update (u_jitter env1 0) c] \<and> c_alive (coconut_update (u_jitter env1 0) c)
       \<or> coconuts e1 = []" by blast
    then show ?thesis
    proof
      assume a: "coconuts e1 = [coconut_update (u_jitter env1 0) c] \<and> c_alive (coconut_update (u_jitter env1 0) c)"
      with coconut_update_frames[of "u_jitter env1 0" c]
      have "1 \<le> c_frames_remaining (coconut_update (u_jitter env1 0) c)" by blast
      with a show ?thesis by simp
    next
      assume "coconuts e1 = []"
      then show ?thesis by simp
    qed
  qed
  have part4: "coconuts e3 = [] \<and> frame e3 = 1"
    if d: "updates envs e1 = Inr e3" "\<forall>c\<in>set (coconuts e1). c_frames_remaining c \<le> int (length envs)"
    for envs e3
  proof -
    have "\<forall>c\<in>set (coconuts e1). 1 \<le> c_frames_remaining c \<and> c_frames_remaining c \<le> int (length envs)"
      using alive1 d(2) by blast
    from updates_drain[OF p1 cap this d(1)] updates_capped[OF cap d(1)] f1 show ?thesis by simp
  qed
  show ?thesis using f1 part2 part3 part4 by blast
qed

theorem scenario_two_updates_witness:
  "init_engine scenario_config [] [] = Inr scenario_engine
   \<and> sort (STRIKES scenario_config) = [625, 630, 635]
   \<and> SPOT_PRICE scenario_config = 628
   \<and> TRIALS scenario_config = 1
   \<and> update scenario_env scenario_engine = Inr scenario_after_one
   \<and> update scenario_env scenario_after_one = Inr scenario_after_two
   \<and> frame scenario_after_one = 1
   \<and> frame scenario_after_two = 1"
proof -
  have st: "sort (STRIKES scenario_config) = [625, 630, 635]" by (simp add: scenario_config_def)
  have sp: "SPOT_PRICE scenario_config = 628" by (simp add: scenario_config_def)
  have tr: "TRIALS scenario_config = 1" by (simp add: scenario_config_def)
  have gm: "\<forall>s\<in>set (STRIKES scenario_config). map_of (GAMMA_STRENGTH scenario_config) s = Some (1 / 2)"
    by (simp add: scenario_config_def)
  from scenario_two_updates[OF scenario_init st sp gm tr scenario_first_update] scenario_second_update
  have "frame scenario_after_one = 1 \<and> frame scenario_after_two = 1" by blast
  with scenario_init st sp tr scenario_first_update scenario_second_update show ?thesis by simp
qed

text \<open>
  The claim as stated fails for the slingshot of the scenario: after the first update the
  coconut, a hit, is still in flight with 299 frames remaining, so no strike of the
  aggregate maps has received an increment; after the second update it is still alive.
\<close>

theorem scenario_one_update_counterexample:
  "init_engine scenario_config [] [] = Inr scenario_engine
   \<and> update scenario_env scenario_engine = Inr scenario_after_one
   \<and> frame scenario_after_one = 1
   \<and> tree_hits scenario_after_one = tree_hits scenario_engine
   \<and> retail_juice scenario_after_one = retail_juice scenario_engine
   \<and> mm_juice scenario_after_one = mm_juice scenario_engine
   \<and> update scenario_env scenario_after_one = Inr scenario_after_two
   \<and> length (coconuts scenario_after_two) = 1
   \<and> c_alive (hd (coconuts scenario_after_two))"
proof -
  have "c_alive (coconut_update (1 / 2) (coconut_update (1 / 2) scenario_coconut))"
    by (simp add: scenario_coconut_def new_coconut_def scenario_slingshot_def coconut_update_def Let_def)
  then show ?thesis
    using scenario_init scenario_first_update scenario_second_update
    by (simp add: scenario_after_one_def scenario_after_two_def)
qed

end
